theory Spec2Isabelle
  imports Complex_Main
begin

section \<open>Numbers and constants\<close>

text \<open>
  The game keeps every quantity in a JavaScript number.  The state of a match is modelled
  with \<^typ>\<open>real\<close> for the finite values it holds (rounding, overflow and underflow of
  the 64-bit format are not part of the model), \<^typ>\<open>nat\<close> for the counters that only
  count up or down to zero, and \<^typ>\<open>int\<close> for the lives and the score.  Where the source
  divides by a value that can be zero the model says what JavaScript produces there.
\<close>

named_theorems game_consts \<open>the numeric constants of constants.ts\<close>

definition CANVAS_WIDTH :: real where [game_consts]: "CANVAS_WIDTH = 400"
definition CANVAS_HEIGHT :: real where [game_consts]: "CANVAS_HEIGHT = 300"
definition PADDLE_WIDTH :: real where [game_consts]: "PADDLE_WIDTH = 60"
definition PADDLE_HEIGHT :: real where [game_consts]: "PADDLE_HEIGHT = 8"
definition PADDLE_Y_OFFSET :: real where [game_consts]: "PADDLE_Y_OFFSET = 15"
definition BALL_RADIUS :: real where [game_consts]: "BALL_RADIUS = 5"
definition BALL_SPEED_X :: real where [game_consts]: "BALL_SPEED_X = 6"
definition BALL_SPEED_Y :: real where [game_consts]: "BALL_SPEED_Y = - 6"
definition MIN_BALL_SPEED :: real where [game_consts]: "MIN_BALL_SPEED = 4"
definition MAX_BALL_SPEED :: real where [game_consts]: "MAX_BALL_SPEED = 10"
definition PADDLE_SPIN_FACTOR :: real where [game_consts]: "PADDLE_SPIN_FACTOR = 4"
definition PADDLE_VELOCITY_SPIN_FACTOR :: real where
  [game_consts]: "PADDLE_VELOCITY_SPIN_FACTOR = 3 / 10"
definition PADDLE_EDGE_BOOST :: real where [game_consts]: "PADDLE_EDGE_BOOST = 5 / 2"
definition PADDLE_FLICK_SPEED_BONUS :: real where
  [game_consts]: "PADDLE_FLICK_SPEED_BONUS = 11 / 10"
definition BALL_FRICTION :: real where [game_consts]: "BALL_FRICTION = 9995 / 10000"
definition BRICK_ROW_COUNT :: nat where [game_consts]: "BRICK_ROW_COUNT = 5"
definition BRICK_COLUMN_COUNT :: nat where [game_consts]: "BRICK_COLUMN_COUNT = 9"
definition BRICK_WIDTH :: real where [game_consts]: "BRICK_WIDTH = 36"
definition BRICK_HEIGHT :: real where [game_consts]: "BRICK_HEIGHT = 10"
definition BRICK_PADDING :: real where [game_consts]: "BRICK_PADDING = 5"
definition BRICK_OFFSET_TOP :: real where [game_consts]: "BRICK_OFFSET_TOP = 20"
definition BRICK_OFFSET_LEFT :: real where [game_consts]: "BRICK_OFFSET_LEFT = 18"
definition POINTS_PER_BRICK :: int where [game_consts]: "POINTS_PER_BRICK = 10"
definition JACKPOT_CHANCE :: real where [game_consts]: "JACKPOT_CHANCE = 25 / 100"
definition POWER_BALL_CHANCE :: real where
  [game_consts]: "POWER_BALL_CHANCE = 3152519739159347 / 9007199254740992"
definition POWER_BALL_DURATION :: nat where [game_consts]: "POWER_BALL_DURATION = 240"
definition AI_PADDLE_EASING :: real where [game_consts]: "AI_PADDLE_EASING = 4 / 10"
definition AI_PADDLE_JITTER_AMOUNT :: real where [game_consts]: "AI_PADDLE_JITTER_AMOUNT = 4"
definition AI_STUCK_FRAMES_THRESHOLD :: nat where [game_consts]: "AI_STUCK_FRAMES_THRESHOLD = 180"
definition AI_POWER_SHOT_MULTIPLIER :: real where [game_consts]: "AI_POWER_SHOT_MULTIPLIER = 7"
definition AI_END_GAME_BRICK_COUNT :: nat where [game_consts]: "AI_END_GAME_BRICK_COUNT = 3"
definition AI_RECOVERY_FRAMES :: nat where [game_consts]: "AI_RECOVERY_FRAMES = 90"
definition AI_LOOP_DETECTION_HISTORY_LENGTH :: nat where
  [game_consts]: "AI_LOOP_DETECTION_HISTORY_LENGTH = 60"
definition AI_LOOP_DETECTION_BOX_SIZE :: real where
  [game_consts]: "AI_LOOP_DETECTION_BOX_SIZE = BALL_RADIUS * 6"
definition AI_STRATEGIC_PLANNING_THRESHOLD_Y :: real where
  [game_consts]: "AI_STRATEGIC_PLANNING_THRESHOLD_Y = CANVAS_HEIGHT * (75 / 100)"
definition AI_SIMULATION_DEPTH :: nat where [game_consts]: "AI_SIMULATION_DEPTH = 4"
definition AI_SIMULATION_ANGLES :: "real list" where
  [game_consts]: "AI_SIMULATION_ANGLES = [- (9 / 10), - (6 / 10), - (3 / 10), 0, 3 / 10, 6 / 10, 9 / 10]"

section \<open>JavaScript numbers with their special values\<close>

text \<open>
  The paddle controller divides by values that can be zero and compares the quotients, so
  its arithmetic is modelled on numbers with the special values of the 64-bit format:
  \<open>Fin r\<close> is the finite number \<open>r\<close> (\<open>Fin 0\<close> is the positive zero), \<open>NegZero\<close> the
  negative zero, then the two infinities and \<open>NaN\<close>.  Finite results are exact.  A number
  read from the state of the match is \<open>Fin\<close> of its value.
\<close>

datatype jsnum = Fin real | NegZero | PosInf | NegInf | NaN

definition isFiniteJs :: "jsnum \<Rightarrow> bool" where
  "isFiniteJs x = (case x of Fin r \<Rightarrow> True | NegZero \<Rightarrow> True | _ \<Rightarrow> False)"

definition isInfJs :: "jsnum \<Rightarrow> bool" where
  "isInfJs x = (x = PosInf \<or> x = NegInf)"

definition valJs :: "jsnum \<Rightarrow> real" where
  "valJs x = (case x of Fin r \<Rightarrow> r | _ \<Rightarrow> 0)"

definition isZeroJs :: "jsnum \<Rightarrow> bool" where
  "isZeroJs x = (x = Fin 0 \<or> x = NegZero)"

definition signBit :: "jsnum \<Rightarrow> bool" where
  "signBit x = (case x of Fin r \<Rightarrow> r < 0 | NegZero \<Rightarrow> True | NegInf \<Rightarrow> True | _ \<Rightarrow> False)"

definition mkInf :: "bool \<Rightarrow> jsnum" where
  "mkInf neg = (if neg then NegInf else PosInf)"

definition mkFin :: "bool \<Rightarrow> real \<Rightarrow> jsnum" where
  "mkFin neg r = (if r = 0 then (if neg then NegZero else Fin 0) else Fin r)"

definition jsNeg :: "jsnum \<Rightarrow> jsnum" where
  "jsNeg x =
     (case x of NaN \<Rightarrow> NaN | PosInf \<Rightarrow> NegInf | NegInf \<Rightarrow> PosInf | NegZero \<Rightarrow> Fin 0
      | Fin r \<Rightarrow> if r = 0 then NegZero else Fin (- r))"

definition jsAdd :: "jsnum \<Rightarrow> jsnum \<Rightarrow> jsnum" where
  "jsAdd x y =
     (if x = NaN \<or> y = NaN then NaN
      else if isInfJs x then (if isInfJs y \<and> y \<noteq> x then NaN else x)
      else if isInfJs y then y
      else if valJs x + valJs y = 0 then (if x = NegZero \<and> y = NegZero then NegZero else Fin 0)
      else Fin (valJs x + valJs y))"

definition jsSub :: "jsnum \<Rightarrow> jsnum \<Rightarrow> jsnum" where
  "jsSub x y = jsAdd x (jsNeg y)"

definition jsMul :: "jsnum \<Rightarrow> jsnum \<Rightarrow> jsnum" where
  "jsMul x y =
     (if x = NaN \<or> y = NaN then NaN
      else if (isInfJs x \<and> isZeroJs y) \<or> (isZeroJs x \<and> isInfJs y) then NaN
      else if isInfJs x \<or> isInfJs y then mkInf (signBit x \<noteq> signBit y)
      else mkFin (signBit x \<noteq> signBit y) (valJs x * valJs y))"

definition jsDiv :: "jsnum \<Rightarrow> jsnum \<Rightarrow> jsnum" where
  "jsDiv x y =
     (if x = NaN \<or> y = NaN then NaN
      else if (isInfJs x \<and> isInfJs y) \<or> (isZeroJs x \<and> isZeroJs y) then NaN
      else if isInfJs x \<or> isZeroJs y then mkInf (signBit x \<noteq> signBit y)
      else if isInfJs y then mkFin (signBit x \<noteq> signBit y) 0
      else mkFin (signBit x \<noteq> signBit y) (valJs x / valJs y))"

definition jsAbs :: "jsnum \<Rightarrow> jsnum" where
  "jsAbs x =
     (case x of NaN \<Rightarrow> NaN | PosInf \<Rightarrow> PosInf | NegInf \<Rightarrow> PosInf | NegZero \<Rightarrow> Fin 0
      | Fin r \<Rightarrow> Fin \<bar>r\<bar>)"

text \<open>The comparisons are false as soon as one side is \<open>NaN\<close>; the two zeros are equal.\<close>

definition jsLess :: "jsnum \<Rightarrow> jsnum \<Rightarrow> bool" where
  "jsLess x y =
     (if x = NaN \<or> y = NaN then False
      else if x = PosInf \<or> y = NegInf then False
      else if x = NegInf \<or> y = PosInf then True
      else valJs x < valJs y)"

definition jsLessEq :: "jsnum \<Rightarrow> jsnum \<Rightarrow> bool" where
  "jsLessEq x y =
     (if x = NaN \<or> y = NaN then False
      else if x = NegInf \<or> y = PosInf then True
      else if x = PosInf \<or> y = NegInf then False
      else valJs x \<le> valJs y)"

text \<open>
  The operators \<open>+\<close>, \<open>-\<close>, \<open>*\<close>, \<open>/\<close>, \<open>\<bar>_\<bar>\<close>, \<open><\<close> and \<open>\<le>\<close> on \<^typ>\<open>jsnum\<close> are
  these operations, so that the controller below reads as its source does.
\<close>

instantiation jsnum :: "{plus, minus, uminus, times, inverse, abs, ord}"
begin

definition uminus_jsnum :: "jsnum \<Rightarrow> jsnum" where [simp]: "uminus_jsnum = jsNeg"
definition plus_jsnum :: "jsnum \<Rightarrow> jsnum \<Rightarrow> jsnum" where [simp]: "plus_jsnum = jsAdd"
definition minus_jsnum :: "jsnum \<Rightarrow> jsnum \<Rightarrow> jsnum" where [simp]: "minus_jsnum = jsSub"
definition times_jsnum :: "jsnum \<Rightarrow> jsnum \<Rightarrow> jsnum" where [simp]: "times_jsnum = jsMul"
definition divide_jsnum :: "jsnum \<Rightarrow> jsnum \<Rightarrow> jsnum" where [simp]: "divide_jsnum = jsDiv"
definition inverse_jsnum :: "jsnum \<Rightarrow> jsnum" where [simp]: "inverse_jsnum = jsDiv (Fin 1)"
definition abs_jsnum :: "jsnum \<Rightarrow> jsnum" where [simp]: "abs_jsnum = jsAbs"
definition less_jsnum :: "jsnum \<Rightarrow> jsnum \<Rightarrow> bool" where [simp]: "less_jsnum = jsLess"
definition less_eq_jsnum :: "jsnum \<Rightarrow> jsnum \<Rightarrow> bool" where [simp]: "less_eq_jsnum = jsLessEq"

instance ..

end

text \<open>\<open>Math.max\<close> and \<open>Math.min\<close> of two numbers.\<close>

definition jsMax :: "jsnum \<Rightarrow> jsnum \<Rightarrow> jsnum" where
  "jsMax x y =
     (if x = NaN \<or> y = NaN then NaN
      else if x < y then y else if y < x then x
      else if x = NegZero then y else x)"

definition jsMin :: "jsnum \<Rightarrow> jsnum \<Rightarrow> jsnum" where
  "jsMin x y =
     (if x = NaN \<or> y = NaN then NaN
      else if x < y then x else if y < x then y
      else if x = NegZero then x else y)"

text \<open>\<open>Math.max(...xs)\<close> and \<open>Math.min(...xs)\<close> of a list of finite numbers.\<close>

definition jsMaxList :: "real list \<Rightarrow> jsnum" where
  "jsMaxList xs = fold (\<lambda>v acc. jsMax acc (Fin v)) xs NegInf"

definition jsMinList :: "real list \<Rightarrow> jsnum" where
  "jsMinList xs = fold (\<lambda>v acc. jsMin acc (Fin v)) xs PosInf"

section \<open>Data model\<close>

text \<open>
  The interfaces of types.ts.  The optional flags \<open>isPowerBall\<close> and \<open>isGolden\<close> are
  booleans (an absent flag is falsy), \<open>status\<close> is the number 1 (visible) or 0 (broken).
\<close>

record Ball =
  ball_x :: real
  ball_y :: real
  ball_dx :: real
  ball_dy :: real
  ball_radius :: real
  isPowerBall :: bool
  powerBallTimer :: nat

record Paddle =
  paddle_x :: real
  paddle_width :: real
  paddle_height :: real

record Brick =
  brick_x :: real
  brick_y :: real
  status :: nat
  isGolden :: bool

text \<open>
  \<open>SimulatedPath\<close> of the Game component.  The list of visited points is only drawn and is
  left out; \<open>hits\<close> and \<open>score\<close> are kept.
\<close>

record SimulatedPath =
  hits :: "Brick list"
  path_score :: nat
  requiredPaddleCenter :: real

text \<open>
  The refs and the two React state flags of the Game component that the game logic reads.
  The refs that only feed the canvas (particles, trails, screen shake, flash, floating
  texts, stars, the highlighted target brick and the finisher line) are left out.
  \<open>bricksRef.current\<close> is the 9 by 5 array built by \<open>createBricks\<close>, indexed
  \<open>[column][row]\<close>; it is a function on (column, row) pairs, read at the indices the loops
  range over.
\<close>

record GameState =
  ball :: Ball
  paddle :: Paddle
  prevPaddleX :: real
  paddleVelocity :: real
  bricks :: "nat \<times> nat \<Rightarrow> Brick"
  score :: int
  lives :: int
  isPowerShotMode :: bool
  frameCounter :: nat
  lastBrickBreakFrame :: nat
  ballPositionHistory :: "(real \<times> real) list"
  recoveringFromStuckCounter :: nat
  isStuck :: bool
  productiveHits :: nat
  nonProductiveHits :: nat
  dynamicAggressionFactor :: real
  strategicPlan :: "(SimulatedPath list \<times> int) option"
  jackpotsThisGame :: nat
  isWinning :: bool
  isLosing :: bool

text \<open>The props of the Game component that the game logic reads.\<close>

record GameProps =
  initialLives :: int
  initialSkillLevel :: real
  isAIEnabled :: bool
  rank :: int
  totalInstances :: int

text \<open>
  What a frame cannot continue from: \<open>TypeError\<close> is the exception JavaScript throws on
  reading a property of \<open>undefined\<close>; \<open>NonFinite\<close> marks a frame in which a velocity or
  the paddle position becomes \<open>NaN\<close> (the source goes on with the \<open>NaN\<close>; the model, whose
  state holds reals, stops there).
\<close>

datatype error = TypeError | NonFinite

text \<open>\<open>Math.round\<close> rounds to the nearest integer, halves upwards.\<close>

definition js_round :: "real \<Rightarrow> int" where
  "js_round v = \<lfloor>v + 1 / 2\<rfloor>"

definition ballSpeed :: "Ball \<Rightarrow> real" where
  "ballSpeed b = sqrt ((ball_dx b)\<^sup>2 + (ball_dy b)\<^sup>2)"

definition scaleVelocity :: "real \<Rightarrow> Ball \<Rightarrow> Ball" where
  "scaleVelocity k b = b\<lparr>ball_dx := ball_dx b * k, ball_dy := ball_dy b * k\<rparr>"

text \<open>
  The pixel position \<open>drawBricks\<close> gives the brick in column \<open>c\<close> and row \<open>r\<close>.  It
  stores the position in every brick whose status is 1, on every frame.
\<close>

definition brickX :: "nat \<Rightarrow> real" where
  "brickX c = real c * (BRICK_WIDTH + BRICK_PADDING) + BRICK_OFFSET_LEFT"

definition brickY :: "nat \<Rightarrow> real" where
  "brickY r = real r * (BRICK_HEIGHT + BRICK_PADDING) + BRICK_OFFSET_TOP"

definition drawBricks :: "GameState \<Rightarrow> GameState" where
  "drawBricks s =
     s\<lparr>bricks := (\<lambda>(c, r). let b = bricks s (c, r)
                            in if c < BRICK_COLUMN_COUNT \<and> r < BRICK_ROW_COUNT \<and> status b = 1
                               then b\<lparr>brick_x := brickX c, brick_y := brickY r\<rparr>
                               else b)\<rparr>"

section \<open>Golden-brick roulette\<close>

datatype outcome = JACKPOT | POWER_BALL | DUD

text \<open>
  The first lines of \<open>handleGoldenBrick\<close>: the outcome starts as DUD, \<open>cumulative\<close> starts
  at 0 and each test adds the next chance to it before comparing.  The two tests compare
  double-precision numbers, so the chances are the doubles the literals denote: 0.25 is
  \<open>1 / 4\<close>, and the literal 0.35 denotes \<open>3152519739159347 / 2\<^sup>5\<^sup>3\<close>, the double nearest to
  35/100.  Both sums are doubles themselves (\<open>0 + 0.25\<close>, and
  \<open>0.25 + 0.35 = 5404319552844595 / 2\<^sup>5\<^sup>3\<close>), so the additions round nothing.
\<close>

definition rouletteOutcome :: "real \<Rightarrow> outcome" where
  "rouletteOutcome rand =
     (let cumulative = 0;
          cumulative1 = cumulative + JACKPOT_CHANCE
      in if rand < cumulative1 then JACKPOT
         else let cumulative2 = cumulative1 + POWER_BALL_CHANCE
              in if rand < cumulative2 then POWER_BALL else DUD)"

section \<open>handleGoldenBrick\<close>

text \<open>
  One pass of the JACKPOT loop \<open>for (c = 0; c < BRICK_COLUMN_COUNT; c++)\<close> on the brick
  \<open>bricksRef.current[c][row]\<close>.
\<close>

definition jackpotBrick :: "nat \<Rightarrow> nat \<Rightarrow> GameState \<Rightarrow> GameState" where
  "jackpotBrick row c s =
     (let b = bricks s (c, row)
      in if status b = 1
         then s\<lparr>bricks := (bricks s)((c, row) := b\<lparr>status := 0\<rparr>),
                score := score s + POINTS_PER_BRICK,
                productiveHits := productiveHits s + 1\<rparr>
         else s)"

text \<open>
  \<open>handleGoldenBrick(brick)\<close> with the value \<open>rand\<close> that \<open>Math.random()\<close> returned.
  The row is computed from the brick's \<open>y\<close>; a row outside the array makes
  \<open>bricksRef.current[c][row]\<close> undefined and the read of its \<open>status\<close> throws.
  With a speed of zero the two rescalings multiply 0 by an infinite scale, which is \<open>NaN\<close>.
\<close>

definition handleGoldenBrick :: "real \<Rightarrow> Brick \<Rightarrow> GameState \<Rightarrow> error + GameState" where
  "handleGoldenBrick rand brick s =
     (case rouletteOutcome rand of
        JACKPOT \<Rightarrow>
          (let s1 = s\<lparr>jackpotsThisGame := jackpotsThisGame s + 1\<rparr>;
               row = js_round ((brick_y brick - BRICK_OFFSET_TOP) / (BRICK_HEIGHT + BRICK_PADDING))
           in if 0 \<le> row \<and> row < int BRICK_ROW_COUNT
              then Inr (fold (jackpotBrick (nat row)) [0..<BRICK_COLUMN_COUNT] s1)
              else Inl TypeError)
      | POWER_BALL \<Rightarrow>
          (let b1 = (ball s)\<lparr>isPowerBall := True, powerBallTimer := POWER_BALL_DURATION\<rparr>;
               speed = ballSpeed b1
           in if speed = 0 then Inl NonFinite
              else Inr (s\<lparr>ball := scaleVelocity ((speed + 2) / speed) b1\<rparr>))
      | DUD \<Rightarrow>
          (let speed = ballSpeed (ball s)
           in if speed = 0 then Inl NonFinite
              else Inr (s\<lparr>ball := scaleVelocity (MAX_BALL_SPEED / speed) (ball s)\<rparr>)))"

section \<open>collisionDetection\<close>

text \<open>The locals of the brick loop, next to the game state it mutates.\<close>

record BrickScan =
  gs :: GameState
  totalLayoutBricks :: nat
  brokenBricks :: nat
  collisionDetectedThisFrame :: bool

definition overlapsBrick :: "Ball \<Rightarrow> Brick \<Rightarrow> bool" where
  "overlapsBrick bl b =
     (let closestX = max (brick_x b) (min (ball_x bl) (brick_x b + BRICK_WIDTH));
          closestY = max (brick_y b) (min (ball_y bl) (brick_y b + BRICK_HEIGHT));
          distanceSquared = (ball_x bl - closestX)\<^sup>2 + (ball_y bl - closestY)\<^sup>2
      in distanceSquared < ball_radius bl * ball_radius bl)"

text \<open>The bounce of a ball that is not a power ball off the brick it has just broken.\<close>

definition bounceOffBrick :: "Brick \<Rightarrow> Ball \<Rightarrow> Ball" where
  "bounceOffBrick b bl =
     (if \<not> isPowerBall bl
      then let prevY = ball_y bl - ball_dy bl;
               wasVerticallyClear =
                 (prevY + ball_radius bl \<le> brick_y b \<or> prevY - ball_radius bl \<ge> brick_y b + BRICK_HEIGHT)
           in if wasVerticallyClear then bl\<lparr>ball_dy := - ball_dy bl\<rparr>
              else bl\<lparr>ball_dx := - ball_dx bl\<rparr>
      else bl)"

text \<open>
  The body of \<open>if (distanceSquared < ... && !collisionDetectedThisFrame)\<close> for the brick at
  position \<open>p\<close>, with the draw \<open>rand\<close> for the roulette should the brick be golden.
\<close>

definition hitBrick :: "real \<Rightarrow> real \<Rightarrow> nat \<times> nat \<Rightarrow> BrickScan \<Rightarrow> error + BrickScan" where
  "hitBrick skill rand p sc =
     (let s = gs sc;
          detected = (if \<not> isPowerBall (ball s) then True else collisionDetectedThisFrame sc);
          b = (bricks s p)\<lparr>status := 0\<rparr>;
          s1 = s\<lparr>bricks := (bricks s)(p := b),
                 score := score s + POINTS_PER_BRICK,
                 productiveHits := productiveHits s + 1,
                 dynamicAggressionFactor := min 1.5 (dynamicAggressionFactor s + 0.05 * skill),
                 lastBrickBreakFrame := frameCounter s\<rparr>
      in case (if isGolden b then handleGoldenBrick rand b s1 else Inr s1) of
           Inl e \<Rightarrow> Inl e
         | Inr s2 \<Rightarrow>
             Inr (sc\<lparr>gs := s2\<lparr>ball := bounceOffBrick b (ball s2)\<rparr>,
                     collisionDetectedThisFrame := detected\<rparr>))"

text \<open>One pass of the inner loop body, for the brick at position \<open>p = (c, r)\<close>.\<close>

definition brickStep :: "real \<Rightarrow> (nat \<times> nat \<Rightarrow> real) \<Rightarrow> nat \<times> nat \<Rightarrow> BrickScan \<Rightarrow> error + BrickScan" where
  "brickStep skill goldenRand p sc =
     (let b = bricks (gs sc) p
      in if status b = 0 \<and> brick_x b = 0 \<and> brick_y b = 0 then Inr sc
         else let sc1 = sc\<lparr>totalLayoutBricks := totalLayoutBricks sc + 1\<rparr>
              in if status b = 0 then Inr (sc1\<lparr>brokenBricks := brokenBricks sc1 + 1\<rparr>)
                 else if overlapsBrick (ball (gs sc1)) b \<and> \<not> collisionDetectedThisFrame sc1
                      then hitBrick skill (goldenRand p) p sc1
                      else Inr sc1)"

text \<open>The two nested loops visit the columns in order and, in each column, the rows in order.\<close>

definition brickPositions :: "(nat \<times> nat) list" where
  "brickPositions = List.product [0..<BRICK_COLUMN_COUNT] [0..<BRICK_ROW_COUNT]"

fun scanBricks :: "real \<Rightarrow> (nat \<times> nat \<Rightarrow> real) \<Rightarrow> (nat \<times> nat) list \<Rightarrow> BrickScan \<Rightarrow> error + BrickScan" where
  "scanBricks skill goldenRand [] sc = Inr sc"
| "scanBricks skill goldenRand (p # ps) sc =
     (case brickStep skill goldenRand p sc of
        Inl e \<Rightarrow> Inl e
      | Inr sc' \<Rightarrow> scanBricks skill goldenRand ps sc')"

definition startScan :: "GameState \<Rightarrow> BrickScan" where
  "startScan s = \<lparr>gs = s, totalLayoutBricks = 0, brokenBricks = 0, collisionDetectedThisFrame = False\<rparr>"

text \<open>The side walls and the ceiling.\<close>

definition wallsPhase :: "real \<Rightarrow> GameState \<Rightarrow> GameState" where
  "wallsPhase skill s =
     (let bl = ball s;
          s1 = (if ball_x bl + ball_radius bl > CANVAS_WIDTH
                then s\<lparr>ball := bl\<lparr>ball_x := CANVAS_WIDTH - ball_radius bl, ball_dx := - ball_dx bl\<rparr>,
                       nonProductiveHits := nonProductiveHits s + 1,
                       dynamicAggressionFactor := max 0.5 (dynamicAggressionFactor s - 0.02 * skill)\<rparr>
                else if ball_x bl - ball_radius bl < 0
                then s\<lparr>ball := bl\<lparr>ball_x := ball_radius bl, ball_dx := - ball_dx bl\<rparr>,
                       nonProductiveHits := nonProductiveHits s + 1,
                       dynamicAggressionFactor := max 0.5 (dynamicAggressionFactor s - 0.02 * skill)\<rparr>
                else s);
          bl1 = ball s1
      in if ball_y bl1 - ball_radius bl1 < 0
         then s1\<lparr>ball := bl1\<lparr>ball_y := ball_radius bl1, ball_dy := - ball_dy bl1\<rparr>,
                 nonProductiveHits := nonProductiveHits s1 + 1,
                 dynamicAggressionFactor := max 0.5 (dynamicAggressionFactor s1 - 0.02 * skill)\<rparr>
         else s1)"

text \<open>The paddle.  \<open>paddleContact\<close> is the condition of the \<open>if\<close>.\<close>

definition paddleTopY :: real where
  "paddleTopY = CANVAS_HEIGHT - PADDLE_Y_OFFSET - PADDLE_HEIGHT"

definition paddleContact :: "GameState \<Rightarrow> bool" where
  "paddleContact s =
     (let bl = ball s; pd = paddle s
      in ball_dy bl > 0 \<and> ball_y bl + ball_radius bl \<ge> paddleTopY
         \<and> ball_y bl - ball_dy bl < paddleTopY
         \<and> ball_x bl > paddle_x pd \<and> ball_x bl < paddle_x pd + paddle_width pd)"

definition paddlePhase :: "GameState \<Rightarrow> GameState" where
  "paddlePhase s =
     (if paddleContact s
      then let bl = ball s; pd = paddle s;
               dy1 = - ball_dy bl;
               collidePoint = (ball_x bl - (paddle_x pd + paddle_width pd / 2)) / (paddle_width pd / 2);
               spinFromVelocity = paddleVelocity s * PADDLE_VELOCITY_SPIN_FACTOR;
               spin = collidePoint * (if isPowerShotMode s then AI_POWER_SHOT_MULTIPLIER else PADDLE_SPIN_FACTOR);
               flick = (\<bar>collidePoint\<bar> > 0.85);
               spin1 = (if flick then spin * PADDLE_EDGE_BOOST else spin);
               dy2 = (if flick then dy1 * PADDLE_FLICK_SPEED_BONUS else dy1);
               dx1 = spin1 + spinFromVelocity;
               dx2 = (if \<bar>dx1\<bar> < 0.2 then sgn (if dx1 = 0 then 1 else dx1) * 0.5 else dx1)
           in s\<lparr>isStuck := False,
                ball := bl\<lparr>ball_y := paddleTopY - ball_radius bl, ball_dy := dy2, ball_dx := dx2\<rparr>,
                isPowerShotMode := False\<rparr>
      else s)"

text \<open>\<open>resetBallAndPaddle\<close>, with the value \<open>rand\<close> that \<open>Math.random()\<close> returned.\<close>

definition resetBallAndPaddle :: "real \<Rightarrow> GameState \<Rightarrow> GameState" where
  "resetBallAndPaddle rand s =
     s\<lparr>ball := (ball s)\<lparr>ball_x := CANVAS_WIDTH / 2,
                         ball_y := CANVAS_HEIGHT - PADDLE_Y_OFFSET - PADDLE_HEIGHT - BALL_RADIUS,
                         ball_dx := BALL_SPEED_X * (if rand > 0.5 then 1 else - 1),
                         ball_dy := BALL_SPEED_Y,
                         isPowerBall := False,
                         powerBallTimer := 0\<rparr>,
       paddle := (paddle s)\<lparr>paddle_x := (CANVAS_WIDTH - PADDLE_WIDTH) / 2\<rparr>\<rparr>"

text \<open>The floor: a ball fully below the bottom edge costs a life.\<close>

definition floorPhase :: "real \<Rightarrow> GameState \<Rightarrow> GameState" where
  "floorPhase resetRand s =
     (if ball_y (ball s) - ball_radius (ball s) > CANVAS_HEIGHT
      then let s1 = s\<lparr>lives := lives s - 1\<rparr>
           in if lives s1 = 0 then s1\<lparr>isLosing := True\<rparr>
              else resetBallAndPaddle resetRand s1
      else s)"

text \<open>The win test that follows the brick loop.\<close>

definition winDetected :: "BrickScan \<Rightarrow> bool" where
  "winDetected sc =
     (totalLayoutBricks sc > 0 \<and> brokenBricks sc = totalLayoutBricks sc \<and> \<not> isWinning (gs sc))"

text \<open>
  \<open>collisionDetection\<close>: the brick loop, the win test with its early return, then walls,
  paddle and floor.  \<open>goldenRand p\<close> is the roulette draw for a golden brick at \<open>p\<close>,
  \<open>resetRand\<close> the draw of \<open>resetBallAndPaddle\<close>.
\<close>

definition collisionDetection :: "real \<Rightarrow> (nat \<times> nat \<Rightarrow> real) \<Rightarrow> real \<Rightarrow> GameState \<Rightarrow> error + GameState" where
  "collisionDetection skill goldenRand resetRand s =
     (case scanBricks skill goldenRand brickPositions (startScan s) of
        Inl e \<Rightarrow> Inl e
      | Inr sc \<Rightarrow>
          if winDetected sc then Inr ((gs sc)\<lparr>isWinning := True\<rparr>)
          else Inr (floorPhase resetRand (paddlePhase (wallsPhase skill (gs sc)))))"


section \<open>The paddle controller\<close>

datatype agentMode = Normal | Grit | Clutch | Finisher

text \<open>\<open>bricksRef.current.flat()\<close> lists the bricks column by column.\<close>

definition remainingBricks :: "GameState \<Rightarrow> Brick list" where
  "remainingBricks s = filter (\<lambda>b. status b = 1) (map (bricks s) brickPositions)"

definition isEndGame :: "GameState \<Rightarrow> bool" where
  "isEndGame s =
     (length (remainingBricks s) > 0 \<and> length (remainingBricks s) \<le> AI_END_GAME_BRICK_COUNT)"

definition getProductivity :: "GameState \<Rightarrow> real" where
  "getProductivity s =
     (let totalHits = productiveHits s + nonProductiveHits s
      in if totalHits > 0 then real (productiveHits s) / real totalHits * 100 else 0)"

definition agentModeOf :: "GameState \<Rightarrow> agentMode" where
  "agentModeOf s =
     (if isEndGame s then Finisher
      else if lives s = 1 then Clutch
      else if lives s > 2 \<and> getProductivity s < 40 \<and> frameCounter s > 180 then Grit
      else Normal)"

subsection \<open>getDefensiveTargetX\<close>

text \<open>
  The \<open>while (timeToImpact > 0 && steps < maxSteps)\<close> loop; the first argument counts the
  steps that are left of \<open>maxSteps\<close>.
\<close>

fun defensiveLoop :: "nat \<Rightarrow> real \<Rightarrow> jsnum \<Rightarrow> jsnum \<Rightarrow> jsnum \<Rightarrow> jsnum" where
  "defensiveLoop 0 radius timeToImpact simX simDX = simX"
| "defensiveLoop (Suc n) radius timeToImpact simX simDX =
     (if timeToImpact > Fin 0
      then let timeToWall =
                 (if simDX > Fin 0 then (Fin CANVAS_WIDTH - Fin radius - simX) / simDX
                  else (simX - Fin radius) / (- simDX))
           in if timeToWall \<ge> timeToImpact \<or> timeToWall \<le> Fin 0
              then defensiveLoop n radius (Fin 0) (simX + simDX * timeToImpact) simDX
              else defensiveLoop n radius (timeToImpact - timeToWall)
                     (simX + simDX * timeToWall) (simDX * Fin (- 1))
      else simX)"

definition getDefensiveTargetX :: "Ball \<Rightarrow> jsnum" where
  "getDefensiveTargetX bl =
     (if ball_dy bl \<le> 0.1 then Fin (ball_x bl)
      else let timeToImpact = (Fin paddleTopY - Fin (ball_y bl)) / Fin (ball_dy bl)
           in defensiveLoop 10 (ball_radius bl) timeToImpact (Fin (ball_x bl)) (Fin (ball_dx bl)))"

subsection \<open>projectTrajectory and runShotSimulations\<close>

record SimBall =
  sim_x :: real
  sim_y :: real
  sim_dx :: real
  sim_dy :: real

definition insideBrick :: "SimBall \<Rightarrow> Brick \<Rightarrow> bool" where
  "insideBrick sb b =
     (sim_x sb > brick_x b \<and> sim_x sb < brick_x b + BRICK_WIDTH
      \<and> sim_y sb > brick_y b \<and> sim_y sb < brick_y b + BRICK_HEIGHT)"

text \<open>
  The inner loop \<open>for (i = liveBricks.length - 1; i >= 0; i--)\<close> stops at the first brick,
  counted from the end of the list, that contains the simulated ball.
\<close>

definition findHit :: "SimBall \<Rightarrow> Brick list \<Rightarrow> nat option" where
  "findHit sb liveBricks =
     find (\<lambda>i. insideBrick sb (liveBricks ! i)) (rev [0..<length liveBricks])"

text \<open>
  The loop \<open>for (step = 0; step < 500; step++)\<close>; the first argument counts the steps that
  are left.  The result is the list \<open>hits\<close>.
\<close>

fun trajectoryLoop :: "nat \<Rightarrow> nat \<Rightarrow> SimBall \<Rightarrow> Brick list \<Rightarrow> Brick list \<Rightarrow> nat \<Rightarrow> Brick list" where
  "trajectoryLoop 0 depth sb liveBricks hs bounces = hs"
| "trajectoryLoop (Suc n) depth sb liveBricks hs bounces =
     (let sb1 = sb\<lparr>sim_x := sim_x sb + sim_dx sb, sim_y := sim_y sb + sim_dy sb\<rparr>;
          side = (sim_x sb1 > CANVAS_WIDTH \<or> sim_x sb1 < 0);
          sb2 = (if side then sb1\<lparr>sim_dx := sim_dx sb1 * (- 1)\<rparr> else sb1);
          bounces2 = (if side then bounces + 1 else bounces);
          top = (sim_y sb2 < 0);
          sb3 = (if top then sb2\<lparr>sim_dy := sim_dy sb2 * (- 1)\<rparr> else sb2);
          bounces3 = (if top then bounces2 + 1 else bounces2)
      in if sim_y sb3 > CANVAS_HEIGHT then hs
         else case findHit sb3 liveBricks of
                Some i \<Rightarrow>
                  if bounces3 + 1 \<ge> depth then hs @ [liveBricks ! i]
                  else trajectoryLoop n depth (sb3\<lparr>sim_dy := sim_dy sb3 * (- 1)\<rparr>)
                         (take i liveBricks @ drop (Suc i) liveBricks)
                         (hs @ [liveBricks ! i]) (bounces3 + 1)
              | None \<Rightarrow>
                  if bounces3 \<ge> depth then hs
                  else trajectoryLoop n depth sb3 liveBricks hs bounces3)"

definition projectTrajectory :: "real \<Rightarrow> real \<Rightarrow> real \<Rightarrow> real \<Rightarrow> Brick list \<Rightarrow> nat \<Rightarrow> Brick list" where
  "projectTrajectory startX startY startDX startDY liveBricks depth =
     trajectoryLoop 500 depth \<lparr>sim_x = startX, sim_y = startY, sim_dx = startDX, sim_dy = startDY\<rparr>
       liveBricks [] 0"

definition simulatePath :: "GameState \<Rightarrow> real \<Rightarrow> SimulatedPath" where
  "simulatePath s angle =
     (let startX = ball_x (ball s);
          startY = paddleTopY;
          collidePoint = angle;
          simDX = collidePoint * PADDLE_SPIN_FACTOR * 1.2;
          simDY = BALL_SPEED_Y;
          projected = projectTrajectory startX startY simDX simDY (remainingBricks s) AI_SIMULATION_DEPTH
      in \<lparr>hits = projected, path_score = length projected,
          requiredPaddleCenter = startX - collidePoint * (paddle_width (paddle s) / 2)\<rparr>)"

text \<open>The \<open>forEach\<close> that keeps the first path of the highest score.\<close>

definition selectBest :: "SimulatedPath list \<Rightarrow> nat \<times> int" where
  "selectBest paths =
     fold (\<lambda>(i, p) (maxScore, bestPathIndex).
             if path_score p > maxScore then (path_score p, int i) else (maxScore, bestPathIndex))
          (enumerate 0 paths) (0, - 1)"

definition runShotSimulations :: "GameState \<Rightarrow> GameState" where
  "runShotSimulations s =
     (let paths = map (simulatePath s) AI_SIMULATION_ANGLES;
          (maxScore, bestPathIndex) = selectBest paths
      in if maxScore > 1 then s\<lparr>strategicPlan := Some (paths, bestPathIndex)\<rparr>
         else s\<lparr>strategicPlan := None\<rparr>)"

text \<open>\<open>strategicPlanRef.current?.paths[strategicPlanRef.current.bestPathIndex]\<close>.\<close>

definition bestPlanOf :: "GameState \<Rightarrow> SimulatedPath option" where
  "bestPlanOf s =
     (case strategicPlan s of
        None \<Rightarrow> None
      | Some (paths, bestPathIndex) \<Rightarrow>
          if 0 \<le> bestPathIndex \<and> bestPathIndex < int (length paths)
          then Some (paths ! nat bestPathIndex) else None)"

subsection \<open>Offensive targets\<close>

definition goldenBrickOf :: "GameState \<Rightarrow> Brick option" where
  "goldenBrickOf s = find (\<lambda>b. isGolden b \<and> status b = 1) (map (bricks s) brickPositions)"

definition wantsToGamble :: "GameProps \<Rightarrow> GameState \<Rightarrow> bool" where
  "wantsToGamble props s =
     (if goldenBrickOf s \<noteq> None \<and> lives s > 1
      then if rank props = totalInstances props \<and> totalInstances props > 1 then True
           else if rank props = 1 \<and> totalInstances props > 1 then False
           else dynamicAggressionFactor s > 1.2
      else False)"

text \<open>The golden-brick gamble: the target is set only when the time to impact is positive.\<close>

definition gambleTarget :: "GameProps \<Rightarrow> GameState \<Rightarrow> jsnum option" where
  "gambleTarget props s =
     (case goldenBrickOf s of
        None \<Rightarrow> None
      | Some goldenBrick \<Rightarrow>
          if wantsToGamble props s
          then let bl = ball s;
                   aimX = Fin (brick_x goldenBrick) + Fin BRICK_WIDTH / Fin 2;
                   timeToImpact = (Fin paddleTopY - Fin (ball_y bl)) / Fin (ball_dy bl)
               in if timeToImpact > Fin 0
                  then let requiredDX = (aimX - Fin (ball_x bl)) / timeToImpact;
                           requiredCollidePoint = requiredDX / (Fin PADDLE_SPIN_FACTOR * Fin 1.5)
                       in Some (Fin (ball_x bl)
                                - requiredCollidePoint * (Fin (paddle_width (paddle s)) / Fin 2))
                  else None
          else None)"

text \<open>
  The finisher shot of the end game.  The caller has tested \<open>isEndGame\<close>, so the list of
  remaining bricks is not empty; the lowest brick is the first of the largest \<open>y\<close>.
\<close>

definition finisherTarget :: "GameState \<Rightarrow> jsnum option" where
  "finisherTarget s =
     (case remainingBricks s of
        [] \<Rightarrow> None
      | b0 # rest \<Rightarrow>
          let bl = ball s;
              targetBrick = fold (\<lambda>current lowest. if brick_y current > brick_y lowest then current else lowest)
                              (b0 # rest) b0;
              aimX = Fin (brick_x targetBrick) + Fin BRICK_WIDTH / Fin 2;
              requiredDX = (aimX - Fin (ball_x bl))
                           / ((Fin paddleTopY - Fin (ball_y bl)) / Fin (ball_dy bl));
              requiredCollidePoint = requiredDX / Fin PADDLE_SPIN_FACTOR;
              targetPaddleCenter = Fin (ball_x bl)
                                   - requiredCollidePoint * (Fin (paddle_width (paddle s)) / Fin 2)
          in if targetPaddleCenter \<le> Fin (paddle_width (paddle s)) / Fin 2
                \<or> targetPaddleCenter \<ge> Fin CANVAS_WIDTH - Fin (paddle_width (paddle s)) / Fin 2
             then None
             else Some targetPaddleCenter)"

text \<open>
  \<open>findBestTargetBrick\<close>.  The optional chaining \<open>bricksRef.current[c + dc]?.[r + dr]?.status\<close>
  is undefined outside the array.
\<close>

definition neighbourAlive :: "GameState \<Rightarrow> int \<Rightarrow> int \<Rightarrow> bool" where
  "neighbourAlive s c r =
     (0 \<le> c \<and> c < int BRICK_COLUMN_COUNT \<and> 0 \<le> r \<and> r < int BRICK_ROW_COUNT
      \<and> status (bricks s (nat c, nat r)) = 1)"

definition threatScore :: "GameState \<Rightarrow> Brick \<Rightarrow> real" where
  "threatScore s brick =
     (let c = js_round ((brick_x brick - BRICK_OFFSET_LEFT) / (BRICK_WIDTH + BRICK_PADDING));
          r = js_round ((brick_y brick - BRICK_OFFSET_TOP) / (BRICK_HEIGHT + BRICK_PADDING));
          neighborCount = length (filter (\<lambda>(dc, dr). neighbourAlive s (c + dc) (r + dr))
                                    [(- 1, 0), (1, 0), (0, - 1), (0, 1)])
      in \<bar>real_of_int c - (real BRICK_COLUMN_COUNT - 1) / 2\<bar> + (4 - real neighborCount) * 1.5)"

definition findBestTargetBrick :: "GameState \<Rightarrow> Brick option" where
  "findBestTargetBrick s =
     snd (fold (\<lambda>brick (maxThreat, bestBrick).
                  if threatScore s brick > maxThreat then (threatScore s brick, Some brick)
                  else (maxThreat, bestBrick))
               (filter (\<lambda>b. status b = 1 \<and> \<not> isGolden b) (map (bricks s) brickPositions))
               (- 1, None))"

text \<open>
  The heuristic target: the real aim point and its two mirror images, kept when the paddle
  centre they ask for lies inside the canvas, the one nearest to the defensive target first.
\<close>

definition heuristicTarget :: "GameState \<Rightarrow> jsnum \<Rightarrow> jsnum option" where
  "heuristicTarget s defensiveTargetX =
     (case findBestTargetBrick s of
        None \<Rightarrow> None
      | Some bestTarget \<Rightarrow>
          let bl = ball s;
              aimX = Fin (brick_x bestTarget) + Fin BRICK_WIDTH / Fin 2;
              aimY = Fin (brick_y bestTarget) + Fin BRICK_HEIGHT / Fin 2;
              calculatePaddleCenter = (\<lambda>tx ty.
                 (tx - Fin (ball_x bl)) * (- Fin (ball_dy bl)) / (ty - Fin paddleTopY)
                 / Fin AI_POWER_SHOT_MULTIPLIER * (Fin (paddle_width (paddle s)) / Fin 2));
              virtualTargets = [aimX, - aimX, Fin 2 * Fin CANVAS_WIDTH - aimX];
              options = filter (\<lambda>(pos, dist). pos > Fin 0 \<and> pos < Fin CANVAS_WIDTH)
                          (map (\<lambda>tx. (Fin (ball_x bl) - calculatePaddleCenter tx aimY,
                                      \<bar>Fin (ball_x bl) - calculatePaddleCenter tx aimY - defensiveTargetX\<bar>))
                               virtualTargets)
          in case options of
               [] \<Rightarrow> None
             | o1 # os \<Rightarrow> Some (fst (fold (\<lambda>c p. if snd c < snd p then c else p) os o1)))"

text \<open>
  Steps 1 to 3 of the decision block: the plan, the defensive target and the offensive
  target, if any.  \<open>isRecovering\<close> is read after this frame's decrement of the counter.
\<close>

definition planShots :: "GameState \<Rightarrow> GameState" where
  "planShots s =
     (let s0 = s\<lparr>strategicPlan := None\<rparr>;
          isRecovering = (recoveringFromStuckCounter s > 0)
      in if ball_dy (ball s) < 0 \<and> ball_y (ball s) < AI_STRATEGIC_PLANNING_THRESHOLD_Y
            \<and> \<not> isRecovering \<and> \<not> isStuck s
         then runShotSimulations s0 else s0)"

definition plannedTarget :: "GameState \<Rightarrow> jsnum option" where
  "plannedTarget s =
     (case bestPlanOf s of
        Some bestPlan \<Rightarrow>
          if path_score bestPlan > 1 then Some (Fin (requiredPaddleCenter bestPlan)) else None
      | None \<Rightarrow> None)"

definition offensiveTarget :: "GameProps \<Rightarrow> GameState \<Rightarrow> jsnum \<Rightarrow> jsnum option" where
  "offensiveTarget props s defensiveTargetX =
     (let isRecovering = (recoveringFromStuckCounter s > 0)
      in case gambleTarget props s of
           Some t \<Rightarrow> Some t
         | None \<Rightarrow>
             let o1 = (case plannedTarget s of
                         Some t \<Rightarrow> Some t
                       | None \<Rightarrow>
                           if \<not> isRecovering \<and> strategicPlan s = None \<and> isEndGame s
                           then finisherTarget s else None)
             in if o1 = None \<and> \<not> isRecovering \<and> strategicPlan s = None
                then heuristicTarget s defensiveTargetX
                else o1)"

subsection \<open>Final target and paddle movement\<close>

definition decisionConfidence :: "GameProps \<Rightarrow> agentMode \<Rightarrow> GameState \<Rightarrow> real" where
  "decisionConfidence props mode s =
     (let c0 = (case mode of Finisher \<Rightarrow> 2 | Grit \<Rightarrow> 1.5 | Clutch \<Rightarrow> 0.5
                | Normal \<Rightarrow> dynamicAggressionFactor s);
          c1 = (if rank props = 1 \<and> totalInstances props > 1 then c0 * 1.1 else c0)
      in if rank props = totalInstances props \<and> totalInstances props > 1 then max c1 1.4 else c1)"

text \<open>
  Step 4.  The result is the final target, the flag \<open>useFlickShot\<close> and the new value of
  \<open>isPowerShotModeRef\<close>.
\<close>

definition chooseTarget :: "GameProps \<Rightarrow> agentMode \<Rightarrow> GameState \<Rightarrow> jsnum \<Rightarrow> jsnum option \<Rightarrow> jsnum \<times> bool \<times> bool" where
  "chooseTarget props mode s defensiveTargetX offensiveTargetX =
     (let pd = paddle s;
          isRecovering = (recoveringFromStuckCounter s > 0);
          centre = Fin (paddle_x pd) + Fin (paddle_width pd) / Fin 2;
          safeZone = Fin (paddle_width pd) * Fin 0.7;
          flick1 = (\<not> isStuck s \<and> \<bar>defensiveTargetX - centre\<bar> > safeZone / Fin 2);
          target1 = (if flick1
                     then if defensiveTargetX > centre
                          then defensiveTargetX - Fin (paddle_width pd) / Fin 2 + Fin (paddle_width pd) * Fin 0.1
                          else defensiveTargetX + Fin (paddle_width pd) / Fin 2 - Fin (paddle_width pd) * Fin 0.1
                     else defensiveTargetX)
      in if isStuck s \<and> \<not> isRecovering
         then let d = sgn (CANVAS_WIDTH / 2 - ball_x (ball s));
                  flickDirection = (if d = 0 then 1 else d)
              in (defensiveTargetX - Fin (paddle_width pd) / Fin 2 * Fin 0.9 * Fin flickDirection,
                  True, False)
         else case offensiveTargetX of
                Some off \<Rightarrow>
                  if \<not> isRecovering \<and> \<not> flick1
                  then let requiredPaddleMovement = \<bar>off - defensiveTargetX\<bar>;
                           riskFactor = requiredPaddleMovement / (Fin CANVAS_WIDTH * Fin 0.75)
                       in if Fin (decisionConfidence props mode s) > Fin 0.7 + riskFactor
                          then (off, flick1,
                                (case bestPlanOf s of Some bestPlan \<Rightarrow> path_score bestPlan > 2
                                 | None \<Rightarrow> True))
                          else (target1, flick1, False)
                  else (target1, flick1, False)
              | None \<Rightarrow> (target1, flick1, False))"

text \<open>Step 5: easing, jitter and the clamp of the paddle to the canvas.\<close>

definition movePaddle :: "GameProps \<Rightarrow> real \<Rightarrow> agentMode \<Rightarrow> GameState \<Rightarrow> jsnum \<Rightarrow> bool \<Rightarrow> jsnum" where
  "movePaddle props jitterRand mode s finalTargetX useFlickShot =
     (let pd = paddle s; bl = ball s;
          easing0 = Fin AI_PADDLE_EASING * Fin (initialSkillLevel props);
          finalEasing = (if mode = Grit \<or> useFlickShot \<or> mode = Finisher
                         then easing0 * Fin 1.5 else easing0);
          jitter = (if ball_dy bl > 0 \<and> ball_y bl > CANVAS_HEIGHT - PADDLE_Y_OFFSET - PADDLE_HEIGHT - 50
                    then let jitterMagnitude = Fin AI_PADDLE_JITTER_AMOUNT / Fin (initialSkillLevel props)
                         in (Fin jitterRand - Fin 0.5) * jitterMagnitude
                    else Fin 0);
          x1 = Fin (paddle_x pd)
               + (finalTargetX + jitter - (Fin (paddle_x pd) + Fin (paddle_width pd) / Fin 2)) * finalEasing
      in jsMax (Fin 0) (jsMin (Fin CANVAS_WIDTH - Fin (paddle_width pd)) x1))"

text \<open>
  Steps 2 to 4 on the state left by the planning step: the final target, the flag
  \<open>useFlickShot\<close> and the new value of \<open>isPowerShotModeRef\<close>.
\<close>

definition paddleTarget :: "GameProps \<Rightarrow> agentMode \<Rightarrow> GameState \<Rightarrow> jsnum \<times> bool \<times> bool" where
  "paddleTarget props mode s1 =
     (let defensiveTargetX = getDefensiveTargetX (ball s1);
          offensiveTargetX = offensiveTarget props s1 defensiveTargetX
      in chooseTarget props mode s1 defensiveTargetX offensiveTargetX)"

text \<open>The value the block leaves in \<open>paddle.x\<close>.\<close>

definition newPaddleX :: "GameProps \<Rightarrow> real \<Rightarrow> agentMode \<Rightarrow> GameState \<Rightarrow> jsnum" where
  "newPaddleX props jitterRand mode s =
     (let s1 = planShots s;
          (finalTargetX, useFlickShot, powerShot) = paddleTarget props mode s1
      in movePaddle props jitterRand mode s1 finalTargetX useFlickShot)"

text \<open>
  The whole block \<open>if (isAIEnabled) { ... }\<close>.  After the clamp a paddle position that
  is not finite can only be \<open>NaN\<close>; the model stops there.
\<close>

definition aiBlock :: "GameProps \<Rightarrow> real \<Rightarrow> agentMode \<Rightarrow> GameState \<Rightarrow> error + GameState" where
  "aiBlock props jitterRand mode s =
     (let s1 = planShots s;
          (finalTargetX, useFlickShot, powerShot) = paddleTarget props mode s1;
          x1 = newPaddleX props jitterRand mode s
      in if isFiniteJs x1
         then Inr (s1\<lparr>paddle := (paddle s1)\<lparr>paddle_x := valJs x1\<rparr>, isPowerShotMode := powerShot\<rparr>)
         else Inl NonFinite)"

section \<open>One frame: draw\<close>

text \<open>
  The values \<open>Math.random()\<close> returns during one frame: the roulette draw for a golden
  brick hit at a position, the draw of \<open>resetBallAndPaddle\<close>, and the draw of the jitter.
\<close>

record FrameRandom =
  goldenDraw :: "nat \<times> nat \<Rightarrow> real"
  resetDraw :: real
  jitterDraw :: real

text \<open>The countdown of the power ball at the top of \<open>draw\<close>.\<close>

definition expirePowerBall :: "Ball \<Rightarrow> Ball" where
  "expirePowerBall bl =
     (if powerBallTimer bl > 0
      then let bl1 = bl\<lparr>powerBallTimer := powerBallTimer bl - 1\<rparr>
           in if powerBallTimer bl1 = 0
              then let bl2 = bl1\<lparr>isPowerBall := False\<rparr>;
                       speed = ballSpeed bl2
                   in if speed > MAX_BALL_SPEED * 0.8
                      then scaleVelocity ((MIN_BALL_SPEED + 2) / speed) bl2
                      else bl2
              else bl1
      else bl)"

definition frameStart :: "GameState \<Rightarrow> GameState" where
  "frameStart s =
     s\<lparr>frameCounter := frameCounter s + 1,
       recoveringFromStuckCounter :=
         (if recoveringFromStuckCounter s > 0 then recoveringFromStuckCounter s - 1
          else recoveringFromStuckCounter s),
       ball := expirePowerBall (ball s),
       paddleVelocity := paddle_x (paddle s) - prevPaddleX s,
       prevPaddleX := paddle_x (paddle s)\<rparr>"

subsection \<open>Loop detection\<close>

text \<open>The push of the ball position and the shift that keeps the history at 60 entries.\<close>

definition recordPosition :: "GameState \<Rightarrow> GameState" where
  "recordPosition s =
     (let h = ballPositionHistory s @ [(ball_x (ball s), ball_y (ball s))]
      in s\<lparr>ballPositionHistory := (if length h > AI_LOOP_DETECTION_HISTORY_LENGTH then tl h else h)\<rparr>)"

text \<open>The two nested conditions under which the detector declares the ball stuck.\<close>

definition loopDetected :: "GameState \<Rightarrow> bool" where
  "loopDetected s =
     (let history = ballPositionHistory s
      in \<not> isStuck s \<and> recoveringFromStuckCounter s = 0
         \<and> length history = AI_LOOP_DETECTION_HISTORY_LENGTH
         \<and> (let minX = jsMinList (map fst history); maxX = jsMaxList (map fst history);
                 minY = jsMinList (map snd history); maxY = jsMaxList (map snd history);
                 framesSinceLastBreak = int (frameCounter s) - int (lastBrickBreakFrame s)
             in framesSinceLastBreak > int AI_STUCK_FRAMES_THRESHOLD
                \<and> maxX - minX < Fin AI_LOOP_DETECTION_BOX_SIZE
                \<and> maxY - minY < Fin AI_LOOP_DETECTION_BOX_SIZE))"

definition loopDetection :: "GameState \<Rightarrow> GameState" where
  "loopDetection s =
     (let s1 = recordPosition s
      in if loopDetected s1
         then s1\<lparr>isStuck := True, recoveringFromStuckCounter := AI_RECOVERY_FRAMES,
                 ballPositionHistory := []\<rparr>
         else s1)"

subsection \<open>Ball update\<close>

definition moveBall :: "Ball \<Rightarrow> Ball" where
  "moveBall bl = bl\<lparr>ball_x := ball_x bl + ball_dx bl, ball_y := ball_y bl + ball_dy bl\<rparr>"

text \<open>\<open>// Apply friction and clamp ball speed\<close>\<close>

definition frictionClamp :: "Ball \<Rightarrow> Ball" where
  "frictionClamp bl =
     (let bl1 = bl\<lparr>ball_dx := ball_dx bl * BALL_FRICTION, ball_dy := ball_dy bl * BALL_FRICTION\<rparr>;
          speed = ballSpeed bl1
      in if speed < MIN_BALL_SPEED \<and> speed > 0
         then scaleVelocity (MIN_BALL_SPEED / speed) bl1
         else bl1)"

subsection \<open>draw\<close>

text \<open>
  The game logic of \<open>draw\<close> for an active component with a canvas, in the order of the
  source: counters, \<open>drawBricks\<close>, the agent mode and the controller (\<open>controllerStage\<close>),
  then the loop detector and, unless the match is over, the ball update followed by
  \<open>collisionDetection\<close>.
\<close>

definition controllerStage :: "GameProps \<Rightarrow> FrameRandom \<Rightarrow> GameState \<Rightarrow> error + GameState" where
  "controllerStage props rnd s =
     (let s1 = drawBricks (frameStart s);
          agentMode = agentModeOf s1
      in if isAIEnabled props then aiBlock props (jitterDraw rnd) agentMode s1 else Inr s1)"

definition updateBall :: "GameState \<Rightarrow> GameState" where
  "updateBall s = s\<lparr>ball := frictionClamp (moveBall (ball s))\<rparr>"

definition draw :: "GameProps \<Rightarrow> FrameRandom \<Rightarrow> GameState \<Rightarrow> error + GameState" where
  "draw props rnd s =
     (case controllerStage props rnd s of
        Inl e \<Rightarrow> Inl e
      | Inr s2 \<Rightarrow>
          let s3 = loopDetection s2
          in if \<not> isWinning s3 \<and> \<not> isLosing s3
             then collisionDetection (initialSkillLevel props) (goldenDraw rnd) (resetDraw rnd)
                    (updateBall s3)
             else Inr s3)"

section \<open>Start of a match\<close>

definition LEVEL_LAYOUTS :: "nat list list list" where
  "LEVEL_LAYOUTS =
     [[[1, 1, 1, 1, 1, 1, 1, 1, 1],
       [1, 1, 1, 1, 1, 1, 1, 1, 1],
       [1, 1, 1, 1, 1, 1, 1, 1, 1],
       [1, 1, 1, 1, 1, 1, 1, 1, 1],
       [1, 1, 1, 1, 1, 1, 1, 1, 1]],
      [[0, 0, 0, 0, 1, 0, 0, 0, 0],
       [0, 0, 0, 1, 1, 1, 0, 0, 0],
       [0, 0, 1, 1, 1, 1, 1, 0, 0],
       [0, 1, 1, 1, 1, 1, 1, 1, 0],
       [1, 1, 1, 1, 1, 1, 1, 1, 1]],
      [[1, 1, 0, 1, 1, 1, 0, 1, 1],
       [1, 1, 0, 1, 1, 1, 0, 1, 1],
       [1, 1, 0, 1, 1, 1, 0, 1, 1],
       [1, 1, 0, 1, 1, 1, 0, 1, 1],
       [1, 1, 0, 1, 1, 1, 0, 1, 1]],
      [[1, 1, 1, 1, 1, 1, 1, 1, 1],
       [1, 0, 0, 1, 0, 1, 0, 0, 1],
       [1, 1, 1, 1, 1, 1, 1, 1, 1],
       [1, 0, 1, 0, 0, 0, 1, 0, 1],
       [1, 1, 1, 1, 1, 1, 1, 1, 1]],
      [[1, 0, 1, 0, 1, 0, 1, 0, 1],
       [0, 1, 0, 1, 0, 1, 0, 1, 0],
       [1, 0, 1, 0, 1, 0, 1, 0, 1],
       [0, 1, 0, 1, 0, 1, 0, 1, 0],
       [1, 0, 1, 0, 1, 0, 1, 0, 1]]]"

text \<open>\<open>layout[r]?.[c] === 1\<close>\<close>

definition hasBrick :: "nat list list \<Rightarrow> nat \<Rightarrow> nat \<Rightarrow> bool" where
  "hasBrick layout r c = (r < length layout \<and> c < length (layout ! r) \<and> layout ! r ! c = 1)"

text \<open>
  \<open>createBricks\<close> with the two values \<open>Math.random()\<close> returned, both in \<open>[0,1)\<close>: the
  layout and the golden brick among the bricks of the layout.
\<close>

definition createBricks :: "real \<Rightarrow> real \<Rightarrow> nat \<times> nat \<Rightarrow> Brick" where
  "createBricks layoutRand goldenPick =
     (let layout = LEVEL_LAYOUTS ! nat \<lfloor>layoutRand * real (length LEVEL_LAYOUTS)\<rfloor>;
          newBricks = (\<lambda>(c, r). \<lparr>brick_x = 0, brick_y = 0,
                                  status = (if hasBrick layout r c then 1 else 0),
                                  isGolden = False\<rparr>);
          availableBricks = filter (\<lambda>(c, r). hasBrick layout r c) brickPositions
      in if length availableBricks > 0
         then let p = availableBricks ! nat \<lfloor>goldenPick * real (length availableBricks)\<rfloor>
              in newBricks(p := (newBricks p)\<lparr>isGolden := True\<rparr>)
         else newBricks)"

text \<open>The refs of a freshly mounted component after the effect that starts a match.\<close>

definition initialState :: "GameProps \<Rightarrow> real \<Rightarrow> real \<Rightarrow> real \<Rightarrow> GameState" where
  "initialState props layoutRand goldenPick rand =
     resetBallAndPaddle rand
       \<lparr>ball = \<lparr>ball_x = CANVAS_WIDTH / 2,
                ball_y = CANVAS_HEIGHT - PADDLE_Y_OFFSET - PADDLE_HEIGHT - BALL_RADIUS,
                ball_dx = BALL_SPEED_X, ball_dy = BALL_SPEED_Y, ball_radius = BALL_RADIUS,
                isPowerBall = False, powerBallTimer = 0\<rparr>,
        paddle = \<lparr>paddle_x = (CANVAS_WIDTH - PADDLE_WIDTH) / 2, paddle_width = PADDLE_WIDTH,
                  paddle_height = PADDLE_HEIGHT\<rparr>,
        prevPaddleX = (CANVAS_WIDTH - PADDLE_WIDTH) / 2, paddleVelocity = 0,
        bricks = createBricks layoutRand goldenPick, score = 0, lives = initialLives props,
        isPowerShotMode = False, frameCounter = 0, lastBrickBreakFrame = 0,
        ballPositionHistory = [], recoveringFromStuckCounter = 0, isStuck = False,
        productiveHits = 0, nonProductiveHits = 0, dynamicAggressionFactor = 1,
        strategicPlan = None, jackpotsThisGame = 0, isWinning = False, isLosing = False\<rparr>"

text \<open>The states of a match: the start, and what a frame makes of a state of the match.\<close>

inductive reachable :: "GameProps \<Rightarrow> GameState \<Rightarrow> bool" for props :: GameProps where
  start: "0 \<le> layoutRand \<Longrightarrow> layoutRand < 1 \<Longrightarrow> 0 \<le> goldenPick \<Longrightarrow> goldenPick < 1 \<Longrightarrow>
          reachable props (initialState props layoutRand goldenPick rand)"
| frame: "reachable props s \<Longrightarrow> draw props rnd s = Inr s' \<Longrightarrow> reachable props s'"

section \<open>Auxiliary notions and example states\<close>

text \<open>The number of bricks of status 1 among the columns \<open>cs\<close> of a row.\<close>

definition aliveInRow :: "GameState \<Rightarrow> nat \<Rightarrow> nat list \<Rightarrow> nat" where
  "aliveInRow s row cs = length (filter (\<lambda>c. status (bricks s (c, row)) = 1) cs)"

text \<open>
  A grid as \<open>drawBricks\<close> leaves it: the brick at \<open>(c, r)\<close> is visible when \<open>alive (c, r)\<close>
  and golden when \<open>(c, r) = g\<close>; bricks that were never placed keep the position (0, 0).
\<close>

definition gridOf :: "(nat \<times> nat \<Rightarrow> bool) \<Rightarrow> nat \<times> nat \<Rightarrow> nat \<times> nat \<Rightarrow> Brick" where
  "gridOf alive g = (\<lambda>(c, r).
      \<lparr>brick_x = (if alive (c, r) then brickX c else 0),
       brick_y = (if alive (c, r) then brickY r else 0),
       status = (if alive (c, r) then 1 else 0),
       isGolden = ((c, r) = g)\<rparr>)"

text \<open>A state in mid-match around a given ball, paddle position and grid.\<close>

definition stateWith :: "Ball \<Rightarrow> real \<Rightarrow> (nat \<times> nat \<Rightarrow> Brick) \<Rightarrow> GameState" where
  "stateWith bl px grid =
     \<lparr>ball = bl,
      paddle = \<lparr>paddle_x = px, paddle_width = PADDLE_WIDTH, paddle_height = PADDLE_HEIGHT\<rparr>,
      prevPaddleX = px, paddleVelocity = 0, bricks = grid, score = 0, lives = 3,
      isPowerShotMode = False, frameCounter = 100, lastBrickBreakFrame = 0,
      ballPositionHistory = [], recoveringFromStuckCounter = 0, isStuck = False,
      productiveHits = 0, nonProductiveHits = 0, dynamicAggressionFactor = 1,
      strategicPlan = None, jackpotsThisGame = 0, isWinning = False, isLosing = False\<rparr>"

definition ballAt :: "real \<Rightarrow> real \<Rightarrow> real \<Rightarrow> real \<Rightarrow> bool \<Rightarrow> Ball" where
  "ballAt x y dx dy pw =
     \<lparr>ball_x = x, ball_y = y, ball_dx = dx, ball_dy = dy, ball_radius = BALL_RADIUS,
      isPowerBall = pw, powerBallTimer = (if pw then 100 else 0)\<rparr>"

text \<open>The condition under which the loop body breaks the brick at \<open>p\<close>.\<close>

definition registersHit :: "nat \<times> nat \<Rightarrow> BrickScan \<Rightarrow> bool" where
  "registersHit p sc =
     (let b = bricks (gs sc) p
      in status b \<noteq> 0 \<and> overlapsBrick (ball (gs sc)) b \<and> \<not> collisionDetectedThisFrame sc)"

text \<open>
  The bricks broken between two states: the positions of the grid, in scan order, whose
  brick is visible in \<open>s\<close> and has status 0 in \<open>s'\<close>.  \<open>brokenInScan\<close> is this list for the
  state the brick loop of one frame returns.
\<close>

definition brokenBy :: "GameState \<Rightarrow> GameState \<Rightarrow> (nat \<times> nat) list" where
  "brokenBy s s' =
     filter (\<lambda>p. status (bricks s p) \<noteq> 0 \<and> status (bricks s' p) = 0) brickPositions"

definition brokenInScan :: "real \<Rightarrow> (nat \<times> nat \<Rightarrow> real) \<Rightarrow> GameState \<Rightarrow> (nat \<times> nat) list option" where
  "brokenInScan skill goldenRand s =
     (case scanBricks skill goldenRand brickPositions (startScan s) of
        Inl e \<Rightarrow> None
      | Inr sc' \<Rightarrow> Some (brokenBy s (gs sc')))"

text \<open>A visible brick within the ball's radius, in a state before the loop runs.\<close>

definition overlapping :: "GameState \<Rightarrow> nat \<times> nat \<Rightarrow> bool" where
  "overlapping s p = (status (bricks s p) \<noteq> 0 \<and> overlapsBrick (ball s) (bricks s p))"

text \<open>
  A power ball in the gap between the two visible bricks of row 0, within its radius of
  both; and the same position for an ordinary ball.
\<close>

definition powerDemo :: GameState where
  "powerDemo = stateWith (ballAt 56.5 25 3 (- 5) True) 170
                 (gridOf (\<lambda>(c, r). r = 0 \<and> c \<in> {0, 1}) (8, 4))"

definition plainDemo :: GameState where
  "plainDemo = stateWith (ballAt 56.5 25 3 (- 5) False) 170
                 (gridOf (\<lambda>(c, r). r = 0 \<and> c \<in> {0, 1}) (8, 4))"

text \<open>
  An ordinary ball 3 pixels above the golden brick at column 4 of row 2; row 2 holds
  visible bricks in columns 3, 4 and 5, row 3 one in column 4.
\<close>

definition goldenHitDemo :: GameState where
  "goldenHitDemo = stateWith (ballAt 200 47 3 5 False) 170
                     (gridOf (\<lambda>(c, r). (r = 2 \<and> c \<in> {3, 4, 5}) \<or> (r = 3 \<and> c = 4)) (4, 2))"

text \<open>
  Row 2 holds visible bricks in columns 3, 4 and 5, row 3 one in column 4; the golden
  brick is the one at column 4 of row 2 and has just been broken by the ball.
\<close>

definition jackpotDemo :: GameState where
  "jackpotDemo =
     (let grid = gridOf (\<lambda>(c, r). (r = 2 \<and> c \<in> {3, 4, 5}) \<or> (r = 3 \<and> c = 4)) (4, 2)
      in stateWith (ballAt 200 65 3 (- 5) False) 170
           (grid((4, 2) := (grid (4, 2))\<lparr>status := 0\<rparr>)))"

text \<open>The range of the confidence scalar.\<close>

definition confident :: "GameState \<Rightarrow> bool" where
  "confident s = (0.5 \<le> dynamicAggressionFactor s \<and> dynamicAggressionFactor s \<le> 1.5)"

text \<open>Props of an agent of rank 2 among 6, skill level 1, three lives.\<close>

definition demoProps :: GameProps where
  "demoProps = \<lparr>initialLives = 3, initialSkillLevel = 1, isAIEnabled = True,
                 rank = 2, totalInstances = 6\<rparr>"



text \<open>Props without the controller, and fixed draws.\<close>

definition manualProps :: GameProps where
  "manualProps = \<lparr>initialLives = 3, initialSkillLevel = 1, isAIEnabled = False,
                   rank = 2, totalInstances = 6\<rparr>"

definition demoRandom :: FrameRandom where
  "demoRandom = \<lparr>goldenDraw = (\<lambda>p. 0.9), resetDraw = 0.7, jitterDraw = 0.5\<rparr>"

text \<open>An empty grid: no brick was ever placed.\<close>

definition emptyGrid :: "nat \<times> nat \<Rightarrow> Brick" where
  "emptyGrid = gridOf (\<lambda>p. False) (0, 0)"



text \<open>The fields of the game state that the brick loop may write.\<close>

definition scanFootprint :: "GameState \<Rightarrow> GameState \<Rightarrow> bool" where
  "scanFootprint s s' =
     (\<exists>B S PH J BL D L. s' = s\<lparr>bricks := B, score := S, productiveHits := PH,
         jackpotsThisGame := J, ball := BL, dynamicAggressionFactor := D,
         lastBrickBreakFrame := L\<rparr>)"

text \<open>
  The two counts of the win test, taken on a state: the bricks of the layout are those the
  loop does not skip (a broken brick at position (0, 0) was never placed), the broken ones
  those of status 0 among them.
\<close>

definition placed :: "Brick \<Rightarrow> bool" where
  "placed b = (\<not> (status b = 0 \<and> brick_x b = 0 \<and> brick_y b = 0))"

definition layoutCount :: "GameState \<Rightarrow> nat" where
  "layoutCount s = length (filter placed (map (bricks s) brickPositions))"

definition brokenCount :: "GameState \<Rightarrow> nat" where
  "brokenCount s = length (filter (\<lambda>b. status b = 0) (filter placed (map (bricks s) brickPositions)))"

definition winSummary :: "GameState \<Rightarrow> nat \<times> nat \<times> bool" where
  "winSummary s = (brokenCount s, layoutCount s, isWinning s)"

text \<open>
  Whether, in a frame that starts in \<open>s\<close>, \<open>collisionDetection\<close> reaches its floor test
  and finds the ball fully below the bottom edge.
\<close>

definition ballExitInFrame :: "GameProps \<Rightarrow> FrameRandom \<Rightarrow> GameState \<Rightarrow> bool" where
  "ballExitInFrame props rnd s =
     (case controllerStage props rnd s of
        Inl e \<Rightarrow> False
      | Inr s2 \<Rightarrow>
          let s3 = loopDetection s2
          in \<not> isWinning s3 \<and> \<not> isLosing s3
             \<and> (case scanBricks (initialSkillLevel props) (goldenDraw rnd) brickPositions
                        (startScan (updateBall s3)) of
                  Inl e \<Rightarrow> False
                | Inr sc \<Rightarrow>
                    \<not> winDetected sc
                    \<and> (let s4 = paddlePhase (wallsPhase (initialSkillLevel props) (gs sc))
                        in ball_y (ball s4) - ball_radius (ball s4) > CANVAS_HEIGHT)))"

text \<open>
  A ball about to reach the paddle 27 pixels right of its centre; a ball about to touch
  the only brick left, at column 0 of row 0; a match whose only brick is broken; a ball
  below the paddle that is about to leave the canvas, on the last life.
\<close>

definition flickDemo :: GameState where
  "flickDemo = stateWith (ballAt 221 267 6 6 False) 170 emptyGrid"

definition lastBrickDemo :: GameState where
  "lastBrickDemo = stateWith (ballAt 30 38 3 (- 5) False) 170 (gridOf (\<lambda>p. p = (0, 0)) (8, 4))"

definition allBrokenDemo :: GameState where
  "allBrokenDemo =
     stateWith (ballAt 200 150 3 (- 5) False) 170
       ((gridOf (\<lambda>p. False) (8, 4))
          ((0, 0) := \<lparr>brick_x = brickX 0, brick_y = brickY 0, status = 0, isGolden = False\<rparr>))"

definition lastLifeDemo :: GameState where
  "lastLifeDemo = (stateWith (ballAt 100 302 3 5 False) 170 (gridOf (\<lambda>p. p = (0, 0)) (8, 4)))
                    \<lparr>lives := 1\<rparr>"

text \<open>
  End game with one brick left, at column 4 of row 2, and no golden brick: a ball level
  with the top of the paddle and without vertical velocity; and a ball at the left wall
  without horizontal velocity.
\<close>

definition zeroDyDemo :: GameState where
  "zeroDyDemo = stateWith (ballAt 200 277 3 0 False) 170 (gridOf (\<lambda>p. p = (4, 2)) (8, 4))"

definition zeroDxDemo :: GameState where
  "zeroDxDemo = stateWith (ballAt 5 150 0 1 False) 170 (gridOf (\<lambda>p. p = (4, 2)) (8, 4))"

text \<open>
  One brick, at column 4 of row 4, straight above a ball that is moving up from the
  middle of the canvas; and the same ball with two bricks at rows 0 and 1 of column 6,
  which a shot from 0.3 of the half width reaches after the ceiling.
\<close>

definition singleBrickDemo :: GameState where
  "singleBrickDemo = stateWith (ballAt 200 200 3 (- 5) False) 170 (gridOf (\<lambda>p. p = (4, 4)) (8, 4))"

definition twoBrickDemo :: GameState where
  "twoBrickDemo = stateWith (ballAt 200 200 3 (- 5) False) 170
                    (gridOf (\<lambda>p. p = (6, 0) \<or> p = (6, 1)) (8, 4))"

text \<open>
  What every state of a match satisfies: the paddle has its width and lies inside the
  canvas, the ball has a horizontal velocity, and every brick of the grid has status 0 or 1.
\<close>

definition matchInv :: "GameState \<Rightarrow> bool" where
  "matchInv s =
     (paddle_width (paddle s) = PADDLE_WIDTH
      \<and> 0 \<le> paddle_x (paddle s) \<and> paddle_x (paddle s) \<le> CANVAS_WIDTH - PADDLE_WIDTH
      \<and> ball_dx (ball s) \<noteq> 0
      \<and> list_all (\<lambda>p. status (bricks s p) \<le> 1) brickPositions)"

text \<open>
  What holds of the grid while the brick loop runs: every visible brick carries the row
  position \<open>drawBricks\<close> gave it.
\<close>

definition scanInv :: "GameState \<Rightarrow> bool" where
  "scanInv s =
     list_all (\<lambda>p. status (bricks s p) \<noteq> 0 \<longrightarrow> brick_y (bricks s p) = brickY (snd p))
       brickPositions"

text \<open>
  An agent of skill level 0, and a ball coming down 27 pixels above the paddle in a match
  without bricks.
\<close>

definition zeroSkillProps :: GameProps where
  "zeroSkillProps = \<lparr>initialLives = 3, initialSkillLevel = 0, isAIEnabled = True,
                      rank = 2, totalInstances = 6\<rparr>"

definition descendingDemo :: GameState where
  "descendingDemo = stateWith (ballAt 200 250 3 5 False) 170 emptyGrid"

text \<open>
  The state of \<open>plainDemo\<close> with the confidence scalar at 1.48, and a ball about to cross
  the right wall with the scalar at 0.51.
\<close>

definition capDemo :: GameState where
  "capDemo = plainDemo\<lparr>dynamicAggressionFactor := 1.48\<rparr>"

definition floorDemo :: GameState where
  "floorDemo = (stateWith (ballAt 393 200 3 (- 5) False) 170 emptyGrid)\<lparr>dynamicAggressionFactor := 0.51\<rparr>"

section \<open>Properties\<close>

subsection \<open>Roulette thresholds\<close>

text \<open>
  C6, as the specification words it, read over the reals: POWER\_BALL for every draw \<open>r\<close>
  with \<open>0.25 \<le> r < 0.25 + 0.35\<close>.  The draw \<open>5404319552844595 / 2\<^sup>5\<^sup>3\<close> is a double of
  \<open>[0,1)\<close> within these bounds, and the roulette gives DUD for it.
\<close>

theorem roulette_boundary_counterexample:
  "(0::real) \<le> 5404319552844595 / 9007199254740992
   \<and> (5404319552844595 / 9007199254740992 :: real) < 1
   \<and> (25 / 100 :: real) \<le> 5404319552844595 / 9007199254740992
   \<and> (5404319552844595 / 9007199254740992 :: real) < 25 / 100 + 35 / 100
   \<and> rouletteOutcome (5404319552844595 / 9007199254740992) = DUD"
  by (simp add: rouletteOutcome_def Let_def game_consts)

text \<open>
  C6, amended.  For every draw \<open>r\<close> in \<open>[0,1)\<close> the roulette gives JACKPOT exactly when
  \<open>r < 0.25\<close>, POWER\_BALL exactly when \<open>0.25 \<le> r < c\<close>, and DUD exactly when \<open>c \<le> r\<close>,
  where \<open>c = 5404319552844595 / 2\<^sup>5\<^sup>3\<close> is the floating-point sum of the chances 0.25 and
  0.35; \<open>c\<close> is less than 6/10, by less than \<open>1 / 2\<^sup>5\<^sup>3\<close>.
\<close>

theorem roulette_classification:
  assumes "0 \<le> r" and "r < 1"
  shows "JACKPOT_CHANCE = 25 / 100
       \<and> JACKPOT_CHANCE + POWER_BALL_CHANCE = 5404319552844595 / 9007199254740992
       \<and> JACKPOT_CHANCE + POWER_BALL_CHANCE < 6 / 10
       \<and> 6 / 10 - 1 / 9007199254740992 < JACKPOT_CHANCE + POWER_BALL_CHANCE
       \<and> (rouletteOutcome r = JACKPOT \<longleftrightarrow> r < JACKPOT_CHANCE)
       \<and> (rouletteOutcome r = POWER_BALL \<longleftrightarrow>
            JACKPOT_CHANCE \<le> r \<and> r < JACKPOT_CHANCE + POWER_BALL_CHANCE)
       \<and> (rouletteOutcome r = DUD \<longleftrightarrow> JACKPOT_CHANCE + POWER_BALL_CHANCE \<le> r)"
proof -
  have c1: "JACKPOT_CHANCE = 25 / 100" by (simp add: game_consts)
  have c2: "JACKPOT_CHANCE + POWER_BALL_CHANCE = 5404319552844595 / 9007199254740992"
    by (simp add: game_consts)
  have c3: "JACKPOT_CHANCE + POWER_BALL_CHANCE < 6 / 10" by (simp add: game_consts)
  have c4: "6 / 10 - 1 / 9007199254740992 < JACKPOT_CHANCE + POWER_BALL_CHANCE"
    by (simp add: game_consts)
  have lt: "JACKPOT_CHANCE < JACKPOT_CHANCE + POWER_BALL_CHANCE" by (simp add: game_consts)
  have c5: "(rouletteOutcome r = JACKPOT \<longleftrightarrow> r < JACKPOT_CHANCE)
       \<and> (rouletteOutcome r = POWER_BALL \<longleftrightarrow>
            JACKPOT_CHANCE \<le> r \<and> r < JACKPOT_CHANCE + POWER_BALL_CHANCE)
       \<and> (rouletteOutcome r = DUD \<longleftrightarrow> JACKPOT_CHANCE + POWER_BALL_CHANCE \<le> r)"
    using lt by (auto simp: rouletteOutcome_def Let_def)
  show ?thesis using c1 c2 c3 c4 c5 by blast
qed

theorem roulette_classification_witness:
  "rouletteOutcome (1 / 10) = JACKPOT
   \<and> rouletteOutcome (5404319552844594 / 9007199254740992) = POWER_BALL
   \<and> rouletteOutcome (5404319552844595 / 9007199254740992) = DUD"
proof -
  have j: "rouletteOutcome (1 / 10) = JACKPOT"
    using roulette_classification [of "1 / 10"] by (simp add: game_consts)
  have p: "rouletteOutcome (5404319552844594 / 9007199254740992) = POWER_BALL"
    using roulette_classification [of "5404319552844594 / 9007199254740992"]
    by (simp add: game_consts)
  have d: "rouletteOutcome (5404319552844595 / 9007199254740992) = DUD"
    using roulette_classification [of "5404319552844595 / 9007199254740992"]
    by (simp add: game_consts)
  show ?thesis using j p d by simp
qed

subsection \<open>The jackpot loop\<close>

lemma js_round_of_nat: "js_round (real n) = int n"
  unfolding js_round_def by linarith

lemma js_round_brickY:
  "js_round ((brickY r - BRICK_OFFSET_TOP) / (BRICK_HEIGHT + BRICK_PADDING)) = int r"
  using js_round_of_nat [of r] by (simp add: brickY_def game_consts)

lemma jackpotBrick_bricks:
  "bricks (jackpotBrick row c s) =
     (\<lambda>p. if p = (c, row) \<and> status (bricks s p) = 1 then (bricks s p)\<lparr>status := 0\<rparr> else bricks s p)"
  by (auto simp: jackpotBrick_def Let_def fun_eq_iff)

lemma jackpot_fold_bricks:
  "bricks (fold (jackpotBrick row) cs s) =
     (\<lambda>p. if snd p = row \<and> fst p \<in> set cs \<and> status (bricks s p) = 1
          then (bricks s p)\<lparr>status := 0\<rparr> else bricks s p)"
proof (induction cs arbitrary: s)
  case Nil
  show ?case by simp
next
  case (Cons c cs)
  show ?case
    by (auto simp: Cons.IH jackpotBrick_bricks fun_eq_iff)
qed

lemma jackpot_fold_counts:
  "distinct cs \<Longrightarrow>
   score (fold (jackpotBrick row) cs s) = score s + POINTS_PER_BRICK * int (aliveInRow s row cs)
   \<and> productiveHits (fold (jackpotBrick row) cs s) = productiveHits s + aliveInRow s row cs"
proof (induction cs arbitrary: s)
  case Nil
  show ?case by (simp add: aliveInRow_def)
next
  case (Cons c cs)
  have same: "aliveInRow (jackpotBrick row c s) row cs = aliveInRow s row cs"
    using Cons.prems unfolding aliveInRow_def
    by (intro arg_cong[where f=length] filter_cong) (auto simp: jackpotBrick_bricks)
  from Cons.prems have "distinct cs" by simp
  from Cons.IH[OF this, of "jackpotBrick row c s"] same
  show ?case
    by (auto simp: aliveInRow_def jackpotBrick_def Let_def algebra_simps)
qed

lemma jackpot_fold_rest:
  "ball (fold (jackpotBrick row) cs s) = ball s
   \<and> paddle (fold (jackpotBrick row) cs s) = paddle s
   \<and> jackpotsThisGame (fold (jackpotBrick row) cs s) = jackpotsThisGame s
   \<and> dynamicAggressionFactor (fold (jackpotBrick row) cs s) = dynamicAggressionFactor s
   \<and> isStuck (fold (jackpotBrick row) cs s) = isStuck s
   \<and> isWinning (fold (jackpotBrick row) cs s) = isWinning s
   \<and> isLosing (fold (jackpotBrick row) cs s) = isLosing s
   \<and> lives (fold (jackpotBrick row) cs s) = lives s"
  by (induction cs arbitrary: s) (auto simp: jackpotBrick_def Let_def)

text \<open>
  C5.  When the roulette of \<open>handleGoldenBrick\<close> gives JACKPOT for a golden brick drawn in
  row \<open>row\<close>, the call returns normally; every brick of that row with status 1 has status 0
  afterwards and every other brick of the grid, in the row or outside it, is exactly as
  before; the score grows by POINTS\_PER\_BRICK and the productive-hit counter by one for
  each brick so broken, and the jackpot counter by one.
\<close>

theorem jackpot_breaks_exactly_the_row:
  assumes "rouletteOutcome rand = JACKPOT"
    and "row < BRICK_ROW_COUNT"
    and "brick_y brick = brickY row"
  shows "\<exists>s'. handleGoldenBrick rand brick s = Inr s'
      \<and> (\<forall>c r. bricks s' (c, r) =
            (if r = row \<and> c < BRICK_COLUMN_COUNT \<and> status (bricks s (c, r)) = 1
             then (bricks s (c, r))\<lparr>status := 0\<rparr> else bricks s (c, r)))
      \<and> score s' = score s + POINTS_PER_BRICK * int (aliveInRow s row [0..<BRICK_COLUMN_COUNT])
      \<and> productiveHits s' = productiveHits s + aliveInRow s row [0..<BRICK_COLUMN_COUNT]
      \<and> jackpotsThisGame s' = jackpotsThisGame s + 1"
proof -
  let ?s1 = "s\<lparr>jackpotsThisGame := jackpotsThisGame s + 1\<rparr>"
  let ?s' = "fold (jackpotBrick row) [0..<BRICK_COLUMN_COUNT] ?s1"
  have row: "js_round ((brick_y brick - BRICK_OFFSET_TOP) / (BRICK_HEIGHT + BRICK_PADDING)) = int row"
    using assms(3) js_round_brickY by simp
  have res: "handleGoldenBrick rand brick s = Inr ?s'"
    using assms(1,2) by (simp add: handleGoldenBrick_def row Let_def)
  have cnt: "aliveInRow ?s1 row [0..<BRICK_COLUMN_COUNT] = aliveInRow s row [0..<BRICK_COLUMN_COUNT]"
    by (simp add: aliveInRow_def)
  have "score ?s' = score s + POINTS_PER_BRICK * int (aliveInRow s row [0..<BRICK_COLUMN_COUNT])"
    and "productiveHits ?s' = productiveHits s + aliveInRow s row [0..<BRICK_COLUMN_COUNT]"
    using jackpot_fold_counts [of "[0..<BRICK_COLUMN_COUNT]" row ?s1] cnt by simp_all
  moreover have "jackpotsThisGame ?s' = jackpotsThisGame s + 1"
    by (simp add: jackpot_fold_rest)
  moreover have "\<forall>c r. bricks ?s' (c, r) =
            (if r = row \<and> c < BRICK_COLUMN_COUNT \<and> status (bricks s (c, r)) = 1
             then (bricks s (c, r))\<lparr>status := 0\<rparr> else bricks s (c, r))"
    by (auto simp: jackpot_fold_bricks)
  ultimately show ?thesis using res by blast
qed

theorem jackpot_breaks_exactly_the_row_witness:
  "rouletteOutcome 0.1 = JACKPOT \<and> 2 < BRICK_ROW_COUNT
   \<and> brick_y (bricks jackpotDemo (4, 2)) = brickY 2
   \<and> (\<exists>s'. handleGoldenBrick 0.1 (bricks jackpotDemo (4, 2)) jackpotDemo = Inr s'
        \<and> status (bricks s' (3, 2)) = 0 \<and> status (bricks s' (5, 2)) = 0
        \<and> status (bricks s' (4, 3)) = 1
        \<and> score s' = 20 \<and> productiveHits s' = 2 \<and> jackpotsThisGame s' = 1)"
proof -
  have h1: "rouletteOutcome 0.1 = JACKPOT"
    by (simp add: rouletteOutcome_def game_consts)
  have h2: "2 < BRICK_ROW_COUNT"
    by (simp add: game_consts)
  have h3: "brick_y (bricks jackpotDemo (4, 2)) = brickY 2"
    by (simp add: jackpotDemo_def stateWith_def gridOf_def Let_def)
  have cnt: "aliveInRow jackpotDemo 2 [0..<BRICK_COLUMN_COUNT] = 2"
    by (simp add: aliveInRow_def jackpotDemo_def stateWith_def gridOf_def game_consts upt_rec Let_def)
  from jackpot_breaks_exactly_the_row [OF h1 h2 h3, of jackpotDemo]
  obtain s' where s': "handleGoldenBrick 0.1 (bricks jackpotDemo (4, 2)) jackpotDemo = Inr s'"
      "\<forall>c r. bricks s' (c, r) =
            (if r = 2 \<and> c < BRICK_COLUMN_COUNT \<and> status (bricks jackpotDemo (c, r)) = 1
             then (bricks jackpotDemo (c, r))\<lparr>status := 0\<rparr> else bricks jackpotDemo (c, r))"
      "score s' = score jackpotDemo + POINTS_PER_BRICK * int (aliveInRow jackpotDemo 2 [0..<BRICK_COLUMN_COUNT])"
      "productiveHits s' = productiveHits jackpotDemo + aliveInRow jackpotDemo 2 [0..<BRICK_COLUMN_COUNT]"
      "jackpotsThisGame s' = jackpotsThisGame jackpotDemo + 1"
    by blast
  have "status (bricks s' (3, 2)) = 0" "status (bricks s' (5, 2)) = 0" "status (bricks s' (4, 3)) = 1"
    using s'(2) by (simp_all add: jackpotDemo_def stateWith_def gridOf_def game_consts Let_def)
  moreover have "score s' = 20" "productiveHits s' = 2" "jackpotsThisGame s' = 1"
    using s'(3,4,5) cnt by (simp_all add: jackpotDemo_def stateWith_def game_consts Let_def)
  ultimately show ?thesis using h1 h2 h3 s'(1) by blast
qed


subsection \<open>The brick loop\<close>

lemma brickStep_no_hit:
  "\<not> registersHit p sc \<Longrightarrow>
   \<exists>sc'. brickStep skill gr p sc = Inr sc' \<and> gs sc' = gs sc
        \<and> collisionDetectedThisFrame sc' = collisionDetectedThisFrame sc"
  by (auto simp: brickStep_def registersHit_def Let_def)

lemma brickStep_hit:
  "registersHit p sc \<Longrightarrow>
   brickStep skill gr p sc = hitBrick skill (gr p) p (sc\<lparr>totalLayoutBricks := totalLayoutBricks sc + 1\<rparr>)"
  by (auto simp: brickStep_def registersHit_def Let_def)

lemma hitBrick_detected:
  "\<not> isPowerBall (ball (gs sc)) \<Longrightarrow> hitBrick skill rand p sc = Inr sc' \<Longrightarrow>
   collisionDetectedThisFrame sc'"
  by (auto simp: hitBrick_def Let_def split: sum.splits if_splits)

lemma ballSpeed_pos: "ballSpeed b \<noteq> 0 \<Longrightarrow> 0 < ballSpeed b"
  unfolding ballSpeed_def by (smt (verit) real_sqrt_ge_zero sum_power2_ge_zero)

lemma handleGoldenBrick_direction:
  assumes "handleGoldenBrick rand brick s = Inr s'"
  shows "\<exists>k>0. ball_dx (ball s') = k * ball_dx (ball s) \<and> ball_dy (ball s') = k * ball_dy (ball s)"
proof (cases "rouletteOutcome rand")
  case JACKPOT
  then have "ball s' = ball s"
    using assms by (auto simp: handleGoldenBrick_def Let_def jackpot_fold_rest split: if_splits)
  then show ?thesis by (intro exI[of _ 1]) simp
next
  case POWER_BALL
  let ?b1 = "(ball s)\<lparr>isPowerBall := True, powerBallTimer := POWER_BALL_DURATION\<rparr>"
  have sp: "ballSpeed ?b1 \<noteq> 0" and s': "s' = s\<lparr>ball := scaleVelocity ((ballSpeed ?b1 + 2) / ballSpeed ?b1) ?b1\<rparr>"
    using assms POWER_BALL by (auto simp: handleGoldenBrick_def Let_def split: if_splits)
  have "0 < (ballSpeed ?b1 + 2) / ballSpeed ?b1" using ballSpeed_pos[OF sp] by simp
  then show ?thesis unfolding s'
    by (intro exI[of _ "(ballSpeed ?b1 + 2) / ballSpeed ?b1"]) (simp add: scaleVelocity_def mult.commute)
next
  case DUD
  have sp: "ballSpeed (ball s) \<noteq> 0" and s': "s' = s\<lparr>ball := scaleVelocity (MAX_BALL_SPEED / ballSpeed (ball s)) (ball s)\<rparr>"
    using assms DUD by (auto simp: handleGoldenBrick_def Let_def split: if_splits)
  have "0 < MAX_BALL_SPEED / ballSpeed (ball s)" using ballSpeed_pos[OF sp] by (simp add: game_consts)
  then show ?thesis unfolding s'
    by (intro exI[of _ "MAX_BALL_SPEED / ballSpeed (ball s)"]) (simp add: scaleVelocity_def mult.commute)
qed

lemma handleGoldenBrick_power:
  "handleGoldenBrick rand brick s = Inr s' \<Longrightarrow> isPowerBall (ball s) \<Longrightarrow> isPowerBall (ball s')"
  by (cases "rouletteOutcome rand")
     (auto simp: handleGoldenBrick_def Let_def jackpot_fold_rest scaleVelocity_def split: if_splits)

lemma brickStep_power:
  assumes "isPowerBall (ball (gs sc))" and "brickStep skill gr p sc = Inr sc'"
  shows "isPowerBall (ball (gs sc'))
       \<and> (\<exists>k>0. ball_dx (ball (gs sc')) = k * ball_dx (ball (gs sc))
               \<and> ball_dy (ball (gs sc')) = k * ball_dy (ball (gs sc)))"
proof (cases "registersHit p sc")
  case False
  from brickStep_no_hit[OF False, of skill gr] assms have "gs sc' = gs sc" by auto
  then show ?thesis using assms(1) by (auto intro: exI[of _ 1])
next
  case True
  let ?b = "(bricks (gs sc) p)\<lparr>status := 0\<rparr>"
  let ?s1 = "(gs sc)\<lparr>bricks := (bricks (gs sc))(p := ?b),
                 score := score (gs sc) + POINTS_PER_BRICK,
                 productiveHits := productiveHits (gs sc) + 1,
                 dynamicAggressionFactor := min 1.5 (dynamicAggressionFactor (gs sc) + 0.05 * skill),
                 lastBrickBreakFrame := frameCounter (gs sc)\<rparr>"
  from assms(2) brickStep_hit[OF True, of skill gr]
  have hb: "hitBrick skill (gr p) p (sc\<lparr>totalLayoutBricks := totalLayoutBricks sc + 1\<rparr>) = Inr sc'" by simp
  show ?thesis
  proof (cases "isGolden ?b")
    case False
    then have "ball (gs sc') = bounceOffBrick ?b (ball (gs sc))"
      using hb by (auto simp: hitBrick_def Let_def)
    then have "ball (gs sc') = ball (gs sc)" using assms(1) by (simp add: bounceOffBrick_def)
    then show ?thesis using assms(1) by (auto intro: exI[of _ 1])
  next
    case True
    then obtain s2 where s2: "handleGoldenBrick (gr p) ?b ?s1 = Inr s2"
      and sc': "ball (gs sc') = bounceOffBrick ?b (ball s2)"
      using hb by (auto simp: hitBrick_def Let_def split: sum.splits)
    have pw: "isPowerBall (ball s2)" using handleGoldenBrick_power[OF s2] assms(1) by simp
    then have "ball (gs sc') = ball s2" using sc' by (simp add: bounceOffBrick_def)
    then show ?thesis using pw handleGoldenBrick_direction[OF s2] by simp
  qed
qed

lemma scan_power:
  "isPowerBall (ball (gs sc)) \<Longrightarrow> scanBricks skill gr ps sc = Inr sc' \<Longrightarrow>
   isPowerBall (ball (gs sc'))
   \<and> (\<exists>k>0. ball_dx (ball (gs sc')) = k * ball_dx (ball (gs sc))
           \<and> ball_dy (ball (gs sc')) = k * ball_dy (ball (gs sc)))"
proof (induction ps arbitrary: sc)
  case Nil
  then show ?case by (auto intro: exI[of _ 1])
next
  case (Cons p ps)
  from Cons.prems(2) obtain sc1 where st: "brickStep skill gr p sc = Inr sc1"
    and rest: "scanBricks skill gr ps sc1 = Inr sc'"
    by (auto split: sum.splits)
  from brickStep_power[OF Cons.prems(1) st] obtain k1 where
    pw1: "isPowerBall (ball (gs sc1))" and k1: "k1 > 0"
      "ball_dx (ball (gs sc1)) = k1 * ball_dx (ball (gs sc))"
      "ball_dy (ball (gs sc1)) = k1 * ball_dy (ball (gs sc))" by blast
  from Cons.IH[OF pw1 rest] obtain k2 where
    pw2: "isPowerBall (ball (gs sc'))" and k2: "k2 > 0"
      "ball_dx (ball (gs sc')) = k2 * ball_dx (ball (gs sc1))"
      "ball_dy (ball (gs sc')) = k2 * ball_dy (ball (gs sc1))" by blast
  have "k2 * k1 > 0" using k1(1) k2(1) by simp
  then show ?case using pw2 k1 k2 by (intro conjI exI[of _ "k2 * k1"]) simp_all
qed

lemma brickPositions_eq: "brickPositions =
  [(0,0),(0,1),(0,2),(0,3),(0,4),(1,0),(1,1),(1,2),(1,3),(1,4),(2,0),(2,1),(2,2),(2,3),(2,4),
   (3,0),(3,1),(3,2),(3,3),(3,4),(4,0),(4,1),(4,2),(4,3),(4,4),(5,0),(5,1),(5,2),(5,3),(5,4),
   (6,0),(6,1),(6,2),(6,3),(6,4),(7,0),(7,1),(7,2),(7,3),(7,4),(8,0),(8,1),(8,2),(8,3),(8,4)]"
  by (simp add: brickPositions_def game_consts upt_rec)

lemma hitBrick_unfold:
  fixes sc :: BrickScan and p :: "nat \<times> nat" and skill :: real
  defines "b \<equiv> (bricks (gs sc) p)\<lparr>status := 0\<rparr>"
  defines "s1 \<equiv> (gs sc)\<lparr>bricks := (bricks (gs sc))(p := b),
                 score := score (gs sc) + POINTS_PER_BRICK,
                 productiveHits := productiveHits (gs sc) + 1,
                 dynamicAggressionFactor := min 1.5 (dynamicAggressionFactor (gs sc) + 0.05 * skill),
                 lastBrickBreakFrame := frameCounter (gs sc)\<rparr>"
  assumes "hitBrick skill rand p sc = Inr sc'"
  shows "\<exists>s2. (if isGolden b then handleGoldenBrick rand b s1 else Inr s1) = Inr s2
            \<and> gs sc' = s2\<lparr>ball := bounceOffBrick b (ball s2)\<rparr>"
proof (cases "if isGolden b then handleGoldenBrick rand b s1 else Inr s1")
  case (Inl e)
  have "hitBrick skill rand p sc = Inl e"
    using Inl unfolding hitBrick_def Let_def b_def s1_def by simp
  then show ?thesis using assms(3) by simp
next
  case (Inr s2)
  have "hitBrick skill rand p sc =
      Inr (sc\<lparr>gs := s2\<lparr>ball := bounceOffBrick b (ball s2)\<rparr>,
              collisionDetectedThisFrame :=
                (if \<not> isPowerBall (ball (gs sc)) then True else collisionDetectedThisFrame sc)\<rparr>)"
    using Inr unfolding hitBrick_def Let_def b_def s1_def by simp
  then have "gs sc' = s2\<lparr>ball := bounceOffBrick b (ball s2)\<rparr>" using assms(3) by auto
  then show ?thesis using Inr by blast
qed

lemma scan_after_detection:
  "collisionDetectedThisFrame sc \<Longrightarrow> scanBricks skill gr ps sc = Inr sc' \<Longrightarrow> gs sc' = gs sc"
proof (induction ps arbitrary: sc)
  case Nil
  then show ?case by simp
next
  case (Cons p ps)
  have nh: "\<not> registersHit p sc" using Cons.prems(1) by (simp add: registersHit_def Let_def)
  from brickStep_no_hit[OF nh, of skill gr] obtain sc1 where
    st: "brickStep skill gr p sc = Inr sc1" "gs sc1 = gs sc" "collisionDetectedThisFrame sc1"
    using Cons.prems(1) by auto
  then have "scanBricks skill gr ps sc1 = Inr sc'" using Cons.prems(2) by simp
  then show ?case using Cons.IH[of sc1] st by simp
qed

lemma hitBrick_bricks:
  assumes "hitBrick skill rand p sc = Inr sc'"
  shows "status (bricks (gs sc') p) = 0"
    and "\<not> (isGolden (bricks (gs sc) p) \<and> rouletteOutcome rand = JACKPOT) \<Longrightarrow>
         bricks (gs sc') = (bricks (gs sc))(p := (bricks (gs sc) p)\<lparr>status := 0\<rparr>)"
proof -
  let ?b = "(bricks (gs sc) p)\<lparr>status := 0\<rparr>"
  let ?s1 = "(gs sc)\<lparr>bricks := (bricks (gs sc))(p := ?b),
                 score := score (gs sc) + POINTS_PER_BRICK,
                 productiveHits := productiveHits (gs sc) + 1,
                 dynamicAggressionFactor := min 1.5 (dynamicAggressionFactor (gs sc) + 0.05 * skill),
                 lastBrickBreakFrame := frameCounter (gs sc)\<rparr>"
  from hitBrick_unfold[OF assms] obtain s2 where
    s2: "(if isGolden ?b then handleGoldenBrick rand ?b ?s1 else Inr ?s1) = Inr s2"
    and sc': "gs sc' = s2\<lparr>ball := bounceOffBrick ?b (ball s2)\<rparr>" by blast
  have b: "bricks (gs sc') = bricks s2" using sc' by simp
  have st: "status (bricks s2 p) = 0"
    using s2 by (cases "rouletteOutcome rand")
      (auto simp: handleGoldenBrick_def Let_def jackpot_fold_bricks split: if_splits)
  show "status (bricks (gs sc') p) = 0" using b st by simp
  show "bricks (gs sc') = (bricks (gs sc))(p := ?b)"
    if "\<not> (isGolden (bricks (gs sc) p) \<and> rouletteOutcome rand = JACKPOT)"
    using s2 that b by (cases "rouletteOutcome rand")
      (auto simp: handleGoldenBrick_def Let_def split: if_splits)
qed

lemma scan_bricks_non_power:
  "\<not> isPowerBall (ball (gs sc)) \<Longrightarrow> \<not> collisionDetectedThisFrame sc \<Longrightarrow>
   scanBricks skill gr ps sc = Inr sc' \<Longrightarrow>
   (case find (overlapping (gs sc)) ps of
      None \<Rightarrow> bricks (gs sc') = bricks (gs sc)
    | Some p \<Rightarrow> status (bricks (gs sc') p) = 0
        \<and> (\<not> (isGolden (bricks (gs sc) p) \<and> rouletteOutcome (gr p) = JACKPOT) \<longrightarrow>
             bricks (gs sc') = (bricks (gs sc))(p := (bricks (gs sc) p)\<lparr>status := 0\<rparr>)))"
proof (induction ps arbitrary: sc)
  case Nil
  then show ?case by simp
next
  case (Cons p ps)
  from Cons.prems(3) obtain sc1 where st: "brickStep skill gr p sc = Inr sc1"
    and rest: "scanBricks skill gr ps sc1 = Inr sc'"
    by (auto split: sum.splits)
  show ?case
  proof (cases "registersHit p sc")
    case True
    then have ov: "overlapping (gs sc) p" by (simp add: registersHit_def overlapping_def Let_def)
    let ?sc0 = "sc\<lparr>totalLayoutBricks := totalLayoutBricks sc + 1\<rparr>"
    have hb: "hitBrick skill (gr p) p ?sc0 = Inr sc1"
      using st brickStep_hit[OF True, of skill gr] by simp
    have det: "collisionDetectedThisFrame sc1"
      using hitBrick_detected[of ?sc0 skill "gr p" p sc1] hb Cons.prems(1) by simp
    have same: "gs sc' = gs sc1" using scan_after_detection[OF det rest] .
    show ?thesis using ov same hitBrick_bricks[OF hb] by simp
  next
    case False
    then have nov: "\<not> overlapping (gs sc) p"
      using Cons.prems(2) by (simp add: registersHit_def overlapping_def Let_def)
    from brickStep_no_hit[OF False, of skill gr] st have
      eq: "gs sc1 = gs sc" "collisionDetectedThisFrame sc1 = collisionDetectedThisFrame sc" by auto
    have pre: "\<not> isPowerBall (ball (gs sc1))" "\<not> collisionDetectedThisFrame sc1"
      using eq Cons.prems(1,2) by simp_all
    from Cons.IH[OF pre rest] show ?thesis using nov unfolding eq(1) by simp
  qed
qed

lemma filter_single:
  "distinct xs \<Longrightarrow> p \<in> set xs \<Longrightarrow> filter (\<lambda>q. q = p) xs = [p]"
  by (induction xs) (auto simp: filter_empty_conv)

lemma distinct_brickPositions: "distinct brickPositions"
  by (simp add: brickPositions_def distinct_product)

lemma brokenBy_same: "bricks s' = bricks s \<Longrightarrow> brokenBy s s' = []"
  by (auto simp: brokenBy_def filter_empty_conv)

lemma brokenBy_one:
  assumes "bricks s' = (bricks s)(p := (bricks s p)\<lparr>status := 0\<rparr>)"
    and "status (bricks s p) \<noteq> 0" and "p \<in> set brickPositions"
  shows "brokenBy s s' = [p]"
proof -
  have "(\<lambda>q. status (bricks s q) \<noteq> 0 \<and> status (bricks s' q) = 0) = (\<lambda>q. q = p)"
    using assms(1,2) by (auto simp: fun_eq_iff)
  then show ?thesis
    unfolding brokenBy_def using filter_single[OF distinct_brickPositions assms(3)] by simp
qed

lemma power_breaks_two:
  "brokenInScan 1 (\<lambda>_. 0.9) powerDemo = Some [(0, 0), (1, 0)]"
  by (simp add: brokenInScan_def brokenBy_def brickPositions_eq startScan_def powerDemo_def
     stateWith_def ballAt_def gridOf_def
     brickStep_def registersHit_def hitBrick_def overlapsBrick_def bounceOffBrick_def Let_def
     brickX_def brickY_def game_consts power2_eq_square)

lemma plain_breaks_one:
  "brokenInScan 1 (\<lambda>_. 0.9) plainDemo = Some [(0, 0)]"
  by (simp add: brokenInScan_def brokenBy_def brickPositions_eq startScan_def plainDemo_def
     stateWith_def ballAt_def gridOf_def
     brickStep_def registersHit_def hitBrick_def overlapsBrick_def bounceOffBrick_def Let_def
     brickX_def brickY_def game_consts power2_eq_square)


text \<open>
  C2, as the specification words it: a ball that is not a power ball breaks at most one
  brick in a frame.  In \<open>goldenHitDemo\<close> an ordinary ball touches the golden brick, the
  roulette draws 0.1, a JACKPOT, and the one run of the brick loop breaks the three bricks
  of row 2.
\<close>

theorem jackpot_row_counterexample:
  "\<not> isPowerBall (ball goldenHitDemo)
   \<and> brokenInScan 1 (\<lambda>_. 1 / 10) goldenHitDemo = Some [(3, 2), (4, 2), (5, 2)]"
  by (simp add: brokenInScan_def brokenBy_def brickPositions_eq startScan_def goldenHitDemo_def
     stateWith_def ballAt_def gridOf_def handleGoldenBrick_def rouletteOutcome_def js_round_def
     jackpot_fold_bricks jackpot_fold_rest
     brickStep_def registersHit_def hitBrick_def overlapsBrick_def bounceOffBrick_def Let_def
     brickX_def brickY_def game_consts power2_eq_square)

text \<open>
  C2, amended.  The brick loop runs once per frame.  With a ball that is not a power ball
  it breaks the first visible brick in scan order that lies within the ball's radius, and
  no brick when there is none; unless that brick is golden and the roulette resolves
  JACKPOT, it is the only brick broken.  With a power ball the loop returns with the ball
  still a power ball and its velocity a positive multiple of what it was, so no component
  is inverted; and a power ball can break two bricks in one run, as it does between the
  two bricks of \<open>powerDemo\<close>.
\<close>

theorem brick_hits_per_frame:
  "(\<not> isPowerBall (ball s) \<longrightarrow> brokenInScan skill gr s = Some bs \<longrightarrow>
      (case find (overlapping s) brickPositions of
         None \<Rightarrow> bs = []
       | Some p \<Rightarrow> p \<in> set bs
           \<and> (\<not> (isGolden (bricks s p) \<and> rouletteOutcome (gr p) = JACKPOT) \<longrightarrow> bs = [p])))
   \<and> (isPowerBall (ball s) \<longrightarrow> scanBricks skill gr brickPositions (startScan s) = Inr sc' \<longrightarrow>
        isPowerBall (ball (gs sc'))
        \<and> (\<exists>k>0. ball_dx (ball (gs sc')) = k * ball_dx (ball s)
                \<and> ball_dy (ball (gs sc')) = k * ball_dy (ball s)))
   \<and> isPowerBall (ball powerDemo)
   \<and> brokenInScan 1 (\<lambda>_. 0.9) powerDemo = Some [(0, 0), (1, 0)]"
proof -
  have a: "case find (overlapping s) brickPositions of
         None \<Rightarrow> bs = []
       | Some p \<Rightarrow> p \<in> set bs
           \<and> (\<not> (isGolden (bricks s p) \<and> rouletteOutcome (gr p) = JACKPOT) \<longrightarrow> bs = [p])"
    if np: "\<not> isPowerBall (ball s)" and br: "brokenInScan skill gr s = Some bs"
  proof -
    from br obtain sc1 where sc1: "scanBricks skill gr brickPositions (startScan s) = Inr sc1"
      and bs: "bs = brokenBy s (gs sc1)"
      by (auto simp: brokenInScan_def split: sum.splits)
    have g: "gs (startScan s) = s" "\<not> collisionDetectedThisFrame (startScan s)"
      by (simp_all add: startScan_def)
    have f: "case find (overlapping s) brickPositions of
        None \<Rightarrow> bricks (gs sc1) = bricks s
      | Some p \<Rightarrow> status (bricks (gs sc1) p) = 0
          \<and> (\<not> (isGolden (bricks s p) \<and> rouletteOutcome (gr p) = JACKPOT) \<longrightarrow>
               bricks (gs sc1) = (bricks s)(p := (bricks s p)\<lparr>status := 0\<rparr>))"
      using scan_bricks_non_power[of "startScan s" skill gr brickPositions sc1] np sc1 g(2)
      unfolding g(1) by simp
    show ?thesis
    proof (cases "find (overlapping s) brickPositions")
      case None
      then show ?thesis using f bs brokenBy_same[of "gs sc1" s] by simp
    next
      case (Some p)
      then have mem: "p \<in> set brickPositions" and ov: "overlapping s p"
        by (auto simp: find_Some_iff)
      have alive: "status (bricks s p) \<noteq> 0" using ov by (simp add: overlapping_def)
      have gone: "status (bricks (gs sc1) p) = 0" using f Some by simp
      have "p \<in> set bs" using mem alive gone bs by (simp add: brokenBy_def)
      moreover have "bs = [p]"
        if "\<not> (isGolden (bricks s p) \<and> rouletteOutcome (gr p) = JACKPOT)"
        using f Some that bs brokenBy_one[OF _ alive mem, of "gs sc1"] by simp
      ultimately show ?thesis using Some by simp
    qed
  qed
  have c: "isPowerBall (ball (gs sc'))
        \<and> (\<exists>k>0. ball_dx (ball (gs sc')) = k * ball_dx (ball s)
                \<and> ball_dy (ball (gs sc')) = k * ball_dy (ball s))"
    if "isPowerBall (ball s)" "scanBricks skill gr brickPositions (startScan s) = Inr sc'"
    using scan_power[of "startScan s" skill gr brickPositions sc'] that
    by (simp add: startScan_def)
  have d: "isPowerBall (ball powerDemo)"
    by (simp add: powerDemo_def stateWith_def ballAt_def)
  show ?thesis using a c d power_breaks_two by blast
qed

theorem brick_hits_per_frame_witness:
  "\<not> isPowerBall (ball plainDemo)
   \<and> brokenInScan 1 (\<lambda>_. 0.9) plainDemo = Some [(0, 0)]
   \<and> find (overlapping plainDemo) brickPositions = Some (0, 0)
   \<and> isPowerBall (ball powerDemo)
   \<and> (\<exists>sc'. scanBricks 1 (\<lambda>_. 0.9) brickPositions (startScan powerDemo) = Inr sc'
        \<and> isPowerBall (ball (gs sc'))
        \<and> (\<exists>k>0. ball_dx (ball (gs sc')) = k * 3 \<and> ball_dy (ball (gs sc')) = k * (- 5)))"
proof -
  have np: "\<not> isPowerBall (ball plainDemo)"
    by (simp add: plainDemo_def stateWith_def ballAt_def)
  have fo: "find (overlapping plainDemo) brickPositions = Some (0, 0)"
    by (simp add: brickPositions_eq overlapping_def plainDemo_def stateWith_def ballAt_def
        gridOf_def overlapsBrick_def Let_def brickX_def brickY_def game_consts power2_eq_square)
  have one: "brokenInScan 1 (\<lambda>_. 0.9) plainDemo = Some [(0, 0)]"
  proof -
    obtain bs where bs: "brokenInScan 1 (\<lambda>_. 0.9) plainDemo = Some bs"
      using plain_breaks_one by simp
    have ng: "\<not> (isGolden (bricks plainDemo (0, 0)) \<and> rouletteOutcome 0.9 = JACKPOT)"
      by (simp add: plainDemo_def stateWith_def gridOf_def)
    from brick_hits_per_frame[of plainDemo 1 "\<lambda>_. 0.9" bs] np bs fo ng
    have "bs = [(0, 0)]" by simp
    then show ?thesis using bs by simp
  qed
  have pw: "isPowerBall (ball powerDemo)" "ball_dx (ball powerDemo) = 3"
    "ball_dy (ball powerDemo) = - 5"
    by (simp_all add: powerDemo_def stateWith_def ballAt_def)
  obtain sc' where sc': "scanBricks 1 (\<lambda>_. 0.9) brickPositions (startScan powerDemo) = Inr sc'"
    using power_breaks_two by (auto simp: brokenInScan_def split: sum.splits)
  from brick_hits_per_frame[of powerDemo 1 "\<lambda>_. 0.9" _ sc'] pw sc'
  have "isPowerBall (ball (gs sc'))
        \<and> (\<exists>k>0. ball_dx (ball (gs sc')) = k * 3 \<and> ball_dy (ball (gs sc')) = k * (- 5))"
    by simp
  then show ?thesis using np fo one pw(1) sc' by blast
qed

subsection \<open>The confidence scalar\<close>

lemma handleGoldenBrick_daf:
  "handleGoldenBrick rand brick s = Inr s' \<Longrightarrow> dynamicAggressionFactor s' = dynamicAggressionFactor s"
  by (cases "rouletteOutcome rand")
     (auto simp: handleGoldenBrick_def Let_def jackpot_fold_rest split: if_splits)

lemma hitBrick_daf_eq:
  "hitBrick skill rand p sc = Inr sc' \<Longrightarrow>
   dynamicAggressionFactor (gs sc') = min 1.5 (dynamicAggressionFactor (gs sc) + 0.05 * skill)"
  by (auto simp: hitBrick_def Let_def split: sum.splits if_splits dest!: handleGoldenBrick_daf)

lemma hitBrick_daf:
  assumes "0 \<le> skill" and "confident (gs sc)" and "hitBrick skill rand p sc = Inr sc'"
  shows "confident (gs sc')"
  using assms(1,2) unfolding confident_def hitBrick_daf_eq[OF assms(3)] min_def
  by (auto split: if_splits)

lemma brickStep_daf:
  assumes "0 \<le> skill" and "confident (gs sc)" and "brickStep skill gr p sc = Inr sc'"
  shows "confident (gs sc')"
proof (cases "registersHit p sc")
  case True
  then show ?thesis
    using assms brickStep_hit[OF True, of skill gr]
      hitBrick_daf[of skill "sc\<lparr>totalLayoutBricks := totalLayoutBricks sc + 1\<rparr>" "gr p" p sc']
    by simp
next
  case False
  then show ?thesis using assms brickStep_no_hit[OF False, of skill gr] by auto
qed

lemma scan_daf:
  "0 \<le> skill \<Longrightarrow> confident (gs sc) \<Longrightarrow> scanBricks skill gr ps sc = Inr sc' \<Longrightarrow>
   confident (gs sc')"
proof (induction ps arbitrary: sc)
  case Nil
  then show ?case by simp
next
  case (Cons p ps)
  from Cons.prems(3) obtain sc1 where st: "brickStep skill gr p sc = Inr sc1"
    and rest: "scanBricks skill gr ps sc1 = Inr sc'"
    by (auto split: sum.splits)
  show ?case using Cons.IH[OF Cons.prems(1) brickStep_daf[OF Cons.prems(1,2) st] rest] .
qed

lemma walls_daf: "0 \<le> skill \<Longrightarrow> confident s \<Longrightarrow> confident (wallsPhase skill s)"
  by (auto simp: wallsPhase_def Let_def confident_def max_def)

lemma paddle_daf: "dynamicAggressionFactor (paddlePhase s) = dynamicAggressionFactor s"
  by (simp add: paddlePhase_def Let_def)

lemma floor_daf: "dynamicAggressionFactor (floorPhase r s) = dynamicAggressionFactor s"
  by (simp add: floorPhase_def resetBallAndPaddle_def Let_def)

lemma collision_daf:
  assumes "0 \<le> skill" and "confident s" and "collisionDetection skill gr rr s = Inr s'"
  shows "confident s'"
proof -
  from assms(3) obtain sc where sc: "scanBricks skill gr brickPositions (startScan s) = Inr sc"
    and s': "s' = (if winDetected sc then (gs sc)\<lparr>isWinning := True\<rparr>
                   else floorPhase rr (paddlePhase (wallsPhase skill (gs sc))))"
    by (auto simp: collisionDetection_def split: sum.splits if_splits)
  have "confident (gs sc)"
    using scan_daf[OF assms(1) _ sc] assms(2) by (simp add: startScan_def)
  then show ?thesis
    using walls_daf[OF assms(1), of "gs sc"] unfolding s' confident_def
    by (simp add: floor_daf paddle_daf)
qed

lemma runShotSimulations_fields:
  "\<exists>P. runShotSimulations s = s\<lparr>strategicPlan := P\<rparr>"
  by (auto simp: runShotSimulations_def Let_def split: prod.splits)

lemma planShots_fields: "\<exists>P. planShots s = s\<lparr>strategicPlan := P\<rparr>"
proof -
  obtain P where "runShotSimulations (s\<lparr>strategicPlan := None\<rparr>) = s\<lparr>strategicPlan := None, strategicPlan := P\<rparr>"
    using runShotSimulations_fields[of "s\<lparr>strategicPlan := None\<rparr>"] by blast
  then show ?thesis by (auto simp: planShots_def Let_def)
qed

lemma aiBlock_fields:
  assumes "aiBlock props jr mode s = Inr s'"
  shows "\<exists>x ps P. s' = s\<lparr>strategicPlan := P, paddle := (paddle s)\<lparr>paddle_x := x\<rparr>, isPowerShotMode := ps\<rparr>"
proof -
  obtain P where P: "planShots s = s\<lparr>strategicPlan := P\<rparr>" using planShots_fields by blast
  obtain x ps where "s' = (planShots s)\<lparr>paddle := (paddle (planShots s))\<lparr>paddle_x := x\<rparr>, isPowerShotMode := ps\<rparr>"
    using assms by (auto simp: aiBlock_def Let_def split: prod.splits if_splits)
  then have "s' = s\<lparr>strategicPlan := P, paddle := (paddle s)\<lparr>paddle_x := x\<rparr>, isPowerShotMode := ps\<rparr>"
    unfolding P by simp
  then show ?thesis by blast
qed

lemma loopDetection_fields:
  "\<exists>h st rc. loopDetection s = s\<lparr>ballPositionHistory := h, isStuck := st, recoveringFromStuckCounter := rc\<rparr>"
proof (cases "loopDetected (recordPosition s)")
  case True
  then show ?thesis
    by (intro exI[of _ "[]"] exI[of _ True] exI[of _ AI_RECOVERY_FRAMES])
       (simp add: loopDetection_def recordPosition_def Let_def)
next
  case False
  then show ?thesis
    by (intro exI[of _ "ballPositionHistory (recordPosition s)"] exI[of _ "isStuck s"]
          exI[of _ "recoveringFromStuckCounter s"])
       (simp add: loopDetection_def recordPosition_def Let_def)
qed

lemma draw_stages:
  assumes "draw props rnd s = Inr s'"
  obtains s2 where "controllerStage props rnd s = Inr s2"
    and "if \<not> isWinning (loopDetection s2) \<and> \<not> isLosing (loopDetection s2)
         then collisionDetection (initialSkillLevel props) (goldenDraw rnd) (resetDraw rnd)
                (updateBall (loopDetection s2)) = Inr s'
         else s' = loopDetection s2"
proof (cases "controllerStage props rnd s")
  case (Inl e)
  then have "draw props rnd s = Inl e" by (simp add: draw_def)
  then show ?thesis using assms by simp
next
  case (Inr s2)
  then have "draw props rnd s =
      (if \<not> isWinning (loopDetection s2) \<and> \<not> isLosing (loopDetection s2)
       then collisionDetection (initialSkillLevel props) (goldenDraw rnd) (resetDraw rnd)
                (updateBall (loopDetection s2))
       else Inr (loopDetection s2))"
    by (simp add: draw_def Let_def)
  then show ?thesis using assms Inr that[of s2] by (simp split: if_splits)
qed

lemma controller_fields:
  assumes "controllerStage props rnd s = Inr s2"
  shows "\<exists>x ps P. s2 = (drawBricks (frameStart s))
            \<lparr>strategicPlan := P,
             paddle := (paddle (drawBricks (frameStart s)))\<lparr>paddle_x := x\<rparr>,
             isPowerShotMode := ps\<rparr>"
proof (cases "isAIEnabled props")
  case True
  then show ?thesis
    using assms aiBlock_fields[of props "jitterDraw rnd" "agentModeOf (drawBricks (frameStart s))"
        "drawBricks (frameStart s)" s2]
    by (simp add: controllerStage_def Let_def)
next
  case False
  then have "s2 = drawBricks (frameStart s)" using assms by (simp add: controllerStage_def Let_def)
  then show ?thesis
    by (intro exI[of _ "paddle_x (paddle s2)"] exI[of _ "isPowerShotMode s2"]
          exI[of _ "strategicPlan s2"]) simp
qed

lemma draw_daf:
  assumes "0 \<le> initialSkillLevel props" and "confident s" and "draw props rnd s = Inr s'"
  shows "confident s'"
proof -
  let ?s1 = "drawBricks (frameStart s)"
  have c1: "confident ?s1" using assms(2) by (simp add: confident_def drawBricks_def frameStart_def)
  from draw_stages[OF assms(3)] obtain s2 where
    s2: "controllerStage props rnd s = Inr s2"
    and rest: "if \<not> isWinning (loopDetection s2) \<and> \<not> isLosing (loopDetection s2)
         then collisionDetection (initialSkillLevel props) (goldenDraw rnd) (resetDraw rnd)
                (updateBall (loopDetection s2)) = Inr s'
         else s' = loopDetection s2" by blast
  from controller_fields[OF s2] obtain x ps P where
      "s2 = ?s1\<lparr>strategicPlan := P, paddle := (paddle ?s1)\<lparr>paddle_x := x\<rparr>, isPowerShotMode := ps\<rparr>"
    by blast
  then have "dynamicAggressionFactor s2 = dynamicAggressionFactor ?s1" by simp
  then have c2: "confident s2" using c1 by (simp add: confident_def)
  obtain h st rc where ld: "loopDetection s2 = s2\<lparr>ballPositionHistory := h, isStuck := st, recoveringFromStuckCounter := rc\<rparr>"
    using loopDetection_fields by blast
  have c3: "confident (loopDetection s2)" unfolding ld using c2 by (simp add: confident_def)
  show ?thesis
  proof (cases "\<not> isWinning (loopDetection s2) \<and> \<not> isLosing (loopDetection s2)")
    case True
    then have "collisionDetection (initialSkillLevel props) (goldenDraw rnd) (resetDraw rnd)
                 (updateBall (loopDetection s2)) = Inr s'"
      using rest by simp
    from collision_daf[OF assms(1) _ this] c3 show ?thesis by (simp add: confident_def updateBall_def)
  next
    case False
    then have "s' = loopDetection s2" using rest by simp
    then show ?thesis using c3 by simp
  qed
qed

subsection \<open>Loop detector and stuck flag\<close>




lemma handleGoldenBrick_fields:
  assumes "handleGoldenBrick rand brick s = Inr s'"
  shows "\<exists>B S PH J BL. s' = s\<lparr>bricks := B, score := S, productiveHits := PH,
                                 jackpotsThisGame := J, ball := BL\<rparr>"
proof -
  have fold_fields: "\<exists>B S PH. fold (jackpotBrick row) cs t = t\<lparr>bricks := B, score := S, productiveHits := PH\<rparr>"
    for row cs t
  proof (induction cs arbitrary: t)
    case Nil
    show ?case
      by (intro exI[of _ "bricks t"] exI[of _ "score t"] exI[of _ "productiveHits t"]) simp
  next
    case (Cons c cs)
    have "\<exists>B1 S1 PH1. jackpotBrick row c t = t\<lparr>bricks := B1, score := S1, productiveHits := PH1\<rparr>"
    proof (cases "status (bricks t (c, row)) = 1")
      case True
      then show ?thesis
        by (intro exI[of _ "(bricks t)((c, row) := (bricks t (c, row))\<lparr>status := 0\<rparr>)"]
              exI[of _ "score t + POINTS_PER_BRICK"] exI[of _ "productiveHits t + 1"])
           (simp add: jackpotBrick_def Let_def)
    next
      case False
      then show ?thesis
        by (intro exI[of _ "bricks t"] exI[of _ "score t"] exI[of _ "productiveHits t"])
           (simp add: jackpotBrick_def Let_def)
    qed
    then obtain B1 S1 PH1 where 1: "jackpotBrick row c t = t\<lparr>bricks := B1, score := S1, productiveHits := PH1\<rparr>"
      by blast
    from Cons.IH[of "jackpotBrick row c t"] obtain B S PH where
      2: "fold (jackpotBrick row) cs (jackpotBrick row c t)
          = (jackpotBrick row c t)\<lparr>bricks := B, score := S, productiveHits := PH\<rparr>"
      by blast
    have "fold (jackpotBrick row) (c # cs) t = t\<lparr>bricks := B, score := S, productiveHits := PH\<rparr>"
      using 2 by (simp add: 1)
    then show ?case by blast
  qed
  show ?thesis
  proof (cases "rouletteOutcome rand")
    case JACKPOT
    then obtain row where "s' = fold (jackpotBrick row) [0..<BRICK_COLUMN_COUNT] (s\<lparr>jackpotsThisGame := jackpotsThisGame s + 1\<rparr>)"
      using assms by (auto simp: handleGoldenBrick_def Let_def split: if_splits)
    with fold_fields[of row "[0..<BRICK_COLUMN_COUNT]" "s\<lparr>jackpotsThisGame := jackpotsThisGame s + 1\<rparr>"]
    obtain B S PH where "s' = s\<lparr>jackpotsThisGame := jackpotsThisGame s + 1, bricks := B, score := S, productiveHits := PH\<rparr>"
      by auto
    then show ?thesis
      by (intro exI[of _ B] exI[of _ S] exI[of _ PH] exI[of _ "jackpotsThisGame s + 1"] exI[of _ "ball s"]) simp
  next
    case POWER_BALL
    then obtain BL where "s' = s\<lparr>ball := BL\<rparr>"
      using assms by (auto simp: handleGoldenBrick_def Let_def split: if_splits)
    then show ?thesis
      by (intro exI[of _ "bricks s"] exI[of _ "score s"] exI[of _ "productiveHits s"]
            exI[of _ "jackpotsThisGame s"] exI[of _ BL]) simp
  next
    case DUD
    then obtain BL where "s' = s\<lparr>ball := BL\<rparr>"
      using assms by (auto simp: handleGoldenBrick_def Let_def split: if_splits)
    then show ?thesis
      by (intro exI[of _ "bricks s"] exI[of _ "score s"] exI[of _ "productiveHits s"]
            exI[of _ "jackpotsThisGame s"] exI[of _ BL]) simp
  qed
qed

lemma scanFootprint_refl: "scanFootprint s s"
  unfolding scanFootprint_def
  by (intro exI[of _ "bricks s"] exI[of _ "score s"] exI[of _ "productiveHits s"]
        exI[of _ "jackpotsThisGame s"] exI[of _ "ball s"] exI[of _ "dynamicAggressionFactor s"]
        exI[of _ "lastBrickBreakFrame s"]) simp

lemma scanFootprint_trans: "scanFootprint s t \<Longrightarrow> scanFootprint t u \<Longrightarrow> scanFootprint s u"
  unfolding scanFootprint_def
proof (elim exE)
  fix B S PH J BL D L B' S' PH' J' BL' D' L'
  assume t: "t = s\<lparr>bricks := B, score := S, productiveHits := PH,
         jackpotsThisGame := J, ball := BL, dynamicAggressionFactor := D,
         lastBrickBreakFrame := L\<rparr>"
    and u: "u = t\<lparr>bricks := B', score := S', productiveHits := PH',
         jackpotsThisGame := J', ball := BL', dynamicAggressionFactor := D',
         lastBrickBreakFrame := L'\<rparr>"
  show "\<exists>B S PH J BL D L. u = s\<lparr>bricks := B, score := S, productiveHits := PH,
         jackpotsThisGame := J, ball := BL, dynamicAggressionFactor := D,
         lastBrickBreakFrame := L\<rparr>"
    unfolding u t
    by (intro exI[of _ B'] exI[of _ S'] exI[of _ PH'] exI[of _ J'] exI[of _ BL'] exI[of _ D']
          exI[of _ L']) simp
qed

lemma hitBrick_footprint:
  assumes "hitBrick skill rand p sc = Inr sc'"
  shows "scanFootprint (gs sc) (gs sc')"
proof -
  define b where "b = (bricks (gs sc) p)\<lparr>status := 0\<rparr>"
  define s1 where "s1 = (gs sc)\<lparr>bricks := (bricks (gs sc))(p := b),
                 score := score (gs sc) + POINTS_PER_BRICK,
                 productiveHits := productiveHits (gs sc) + 1,
                 dynamicAggressionFactor := min 1.5 (dynamicAggressionFactor (gs sc) + 0.05 * skill),
                 lastBrickBreakFrame := frameCounter (gs sc)\<rparr>"
  from hitBrick_unfold[OF assms] obtain s2 where
    s2: "(if isGolden b then handleGoldenBrick rand b s1 else Inr s1) = Inr s2"
    and sc': "gs sc' = s2\<lparr>ball := bounceOffBrick b (ball s2)\<rparr>"
    unfolding b_def s1_def by blast
  have 1: "scanFootprint (gs sc) s1"
    unfolding scanFootprint_def s1_def
    by (intro exI[of _ "(bricks (gs sc))(p := b)"] exI[of _ "score (gs sc) + POINTS_PER_BRICK"]
          exI[of _ "productiveHits (gs sc) + 1"] exI[of _ "jackpotsThisGame (gs sc)"]
          exI[of _ "ball (gs sc)"]
          exI[of _ "min 1.5 (dynamicAggressionFactor (gs sc) + 0.05 * skill)"]
          exI[of _ "frameCounter (gs sc)"]) simp
  have 2: "scanFootprint s1 s2"
  proof (cases "isGolden b")
    case True
    with s2 handleGoldenBrick_fields[of rand b s1 s2]
    obtain B S PH J BL where "s2 = s1\<lparr>bricks := B, score := S, productiveHits := PH,
                                 jackpotsThisGame := J, ball := BL\<rparr>" by auto
    then show ?thesis unfolding scanFootprint_def
      by (intro exI[of _ B] exI[of _ S] exI[of _ PH] exI[of _ J] exI[of _ BL]
            exI[of _ "dynamicAggressionFactor s1"] exI[of _ "lastBrickBreakFrame s1"]) simp
  next
    case False
    then show ?thesis using s2 scanFootprint_refl by simp
  qed
  have 3: "scanFootprint s2 (gs sc')"
    unfolding scanFootprint_def sc'
    by (intro exI[of _ "bricks s2"] exI[of _ "score s2"] exI[of _ "productiveHits s2"]
        exI[of _ "jackpotsThisGame s2"] exI[of _ "bounceOffBrick b (ball s2)"]
        exI[of _ "dynamicAggressionFactor s2"] exI[of _ "lastBrickBreakFrame s2"]) simp
  show ?thesis using scanFootprint_trans[OF scanFootprint_trans[OF 1 2] 3] .
qed

lemma brickStep_footprint:
  assumes "brickStep skill gr p sc = Inr sc'"
  shows "scanFootprint (gs sc) (gs sc')"
proof (cases "registersHit p sc")
  case True
  then show ?thesis
    using assms brickStep_hit[OF True, of skill gr]
      hitBrick_footprint[of skill "gr p" p "sc\<lparr>totalLayoutBricks := totalLayoutBricks sc + 1\<rparr>" sc']
    by simp
next
  case False
  then show ?thesis
    using assms brickStep_no_hit[OF False, of skill gr] scanFootprint_refl[of "gs sc"] by auto
qed

lemma scan_footprint:
  "scanBricks skill gr ps sc = Inr sc' \<Longrightarrow> scanFootprint (gs sc) (gs sc')"
proof (induction ps arbitrary: sc)
  case Nil
  then show ?case using scanFootprint_refl by simp
next
  case (Cons p ps)
  from Cons.prems obtain sc1 where st: "brickStep skill gr p sc = Inr sc1"
    and rest: "scanBricks skill gr ps sc1 = Inr sc'"
    by (auto split: sum.splits)
  show ?case using scanFootprint_trans[OF brickStep_footprint[OF st] Cons.IH[OF rest]] .
qed

lemma scanFootprint_keeps:
  assumes "scanFootprint s s'"
  shows "isStuck s' = isStuck s" "isWinning s' = isWinning s" "isLosing s' = isLosing s"
    "lives s' = lives s" "paddle s' = paddle s" "nonProductiveHits s' = nonProductiveHits s"
    "recoveringFromStuckCounter s' = recoveringFromStuckCounter s"
    "ballPositionHistory s' = ballPositionHistory s" "frameCounter s' = frameCounter s"
    "paddleVelocity s' = paddleVelocity s" "isPowerShotMode s' = isPowerShotMode s"
    "strategicPlan s' = strategicPlan s" "prevPaddleX s' = prevPaddleX s"
  using assms unfolding scanFootprint_def by auto


lemma walls_fields:
  "\<exists>BL N D. wallsPhase skill s = s\<lparr>ball := BL, nonProductiveHits := N, dynamicAggressionFactor := D\<rparr>"
proof -
  have eq: "wallsPhase skill s = s\<lparr>ball := ball (wallsPhase skill s),
       nonProductiveHits := nonProductiveHits (wallsPhase skill s),
       dynamicAggressionFactor := dynamicAggressionFactor (wallsPhase skill s)\<rparr>"
    by (simp add: wallsPhase_def Let_def)
  show ?thesis by (intro exI, rule eq)
qed




lemma controller_flags:
  assumes "controllerStage props rnd s = Inr s2"
  shows "isStuck s2 = isStuck s"
    and "recoveringFromStuckCounter s2 = recoveringFromStuckCounter s - 1"
    and "isWinning s2 = isWinning s" and "isLosing s2 = isLosing s"
proof -
  from controller_fields[OF assms] obtain x ps P where
    s2: "s2 = (drawBricks (frameStart s))
            \<lparr>strategicPlan := P,
             paddle := (paddle (drawBricks (frameStart s)))\<lparr>paddle_x := x\<rparr>,
             isPowerShotMode := ps\<rparr>" by blast
  show "isStuck s2 = isStuck s" "isWinning s2 = isWinning s" "isLosing s2 = isLosing s"
    unfolding s2 by (simp_all add: drawBricks_def frameStart_def)
  show "recoveringFromStuckCounter s2 = recoveringFromStuckCounter s - 1"
    unfolding s2 by (simp add: drawBricks_def frameStart_def)
qed



lemma ballSpeed_less_iff: "0 \<le> c \<Longrightarrow> ballSpeed b < c \<longleftrightarrow> (ball_dx b)\<^sup>2 + (ball_dy b)\<^sup>2 < c\<^sup>2"
  unfolding ballSpeed_def
  by (metis real_sqrt_less_iff real_sqrt_abs abs_of_nonneg)

lemma ballSpeed_gt_iff: "0 \<le> c \<Longrightarrow> c < ballSpeed b \<longleftrightarrow> c\<^sup>2 < (ball_dx b)\<^sup>2 + (ball_dy b)\<^sup>2"
  unfolding ballSpeed_def
  by (metis real_sqrt_less_iff real_sqrt_abs abs_of_nonneg)

lemmas demo_defs = stateWith_def ballAt_def gridOf_def emptyGrid_def manualProps_def
  demoRandom_def brickX_def brickY_def game_consts

lemmas frame_defs = controllerStage_def drawBricks_def frameStart_def expirePowerBall_def
  agentModeOf_def updateBall_def moveBall_def frictionClamp_def scaleVelocity_def
  loopDetection_def recordPosition_def loopDetected_def

lemmas collision_defs = collisionDetection_def startScan_def brickStep_def hitBrick_def
  overlapsBrick_def bounceOffBrick_def winDetected_def wallsPhase_def paddlePhase_def
  paddleContact_def paddleTopY_def floorPhase_def resetBallAndPaddle_def




lemma jsnum_eval [simp]:
  "jsMin PosInf (Fin a) = Fin a" "jsMax NegInf (Fin a) = Fin a"
  "jsMin (Fin a) (Fin b) = Fin (min a b)" "jsMax (Fin a) (Fin b) = Fin (max a b)"
  "jsSub (Fin a) (Fin b) = Fin (a - b)" "jsAdd (Fin a) (Fin b) = Fin (a + b)"
  "jsLess (Fin a) (Fin b) = (a < b)" "jsLessEq (Fin a) (Fin b) = (a \<le> b)"
  by (auto simp: jsMin_def jsMax_def jsSub_def jsAdd_def jsNeg_def jsLess_def jsLessEq_def
        valJs_def isInfJs_def min_def max_def)



subsection \<open>Win, loss and ball speed\<close>

lemma hitBrick_counters:
  "hitBrick skill rand p sc = Inr sc' \<Longrightarrow>
   totalLayoutBricks sc' = totalLayoutBricks sc \<and> brokenBricks sc' = brokenBricks sc"
  by (auto simp: hitBrick_def Let_def split: sum.splits)

lemma brickStep_alive:
  assumes "status (bricks (gs sc) p) \<noteq> 0" and "brickStep skill gr p sc = Inr sc'"
  shows "totalLayoutBricks sc' = totalLayoutBricks sc + 1 \<and> brokenBricks sc' = brokenBricks sc"
proof (cases "registersHit p sc")
  case True
  then show ?thesis
    using assms(2) brickStep_hit[OF True, of skill gr]
      hitBrick_counters[of skill "gr p" p "sc\<lparr>totalLayoutBricks := totalLayoutBricks sc + 1\<rparr>" sc']
    by simp
next
  case False
  then show ?thesis using assms
    by (auto simp: brickStep_def registersHit_def Let_def)
qed

lemma brickStep_broken:
  assumes "status (bricks (gs sc) p) = 0"
  shows "brickStep skill gr p sc =
     Inr (if placed (bricks (gs sc) p)
          then sc\<lparr>totalLayoutBricks := totalLayoutBricks sc + 1, brokenBricks := brokenBricks sc + 1\<rparr>
          else sc)"
  using assms by (auto simp: brickStep_def placed_def Let_def)

lemma brickStep_mono:
  assumes "brickStep skill gr p sc = Inr sc'"
  shows "int (totalLayoutBricks sc) - int (brokenBricks sc)
       \<le> int (totalLayoutBricks sc') - int (brokenBricks sc')"
proof (cases "status (bricks (gs sc) p) = 0")
  case True
  then show ?thesis using assms brickStep_broken[OF True, of skill gr] by (auto split: if_splits)
next
  case False
  then show ?thesis using brickStep_alive[OF False assms] by simp
qed

lemma scan_mono:
  "scanBricks skill gr ps sc = Inr sc' \<Longrightarrow>
   int (totalLayoutBricks sc) - int (brokenBricks sc)
     \<le> int (totalLayoutBricks sc') - int (brokenBricks sc')"
proof (induction ps arbitrary: sc)
  case Nil
  then show ?case by simp
next
  case (Cons p ps)
  from Cons.prems obtain sc1 where st: "brickStep skill gr p sc = Inr sc1"
    and rest: "scanBricks skill gr ps sc1 = Inr sc'"
    by (auto split: sum.splits)
  show ?case using brickStep_mono[OF st] Cons.IH[OF rest] by linarith
qed

lemma scan_some_alive:
  "\<exists>p\<in>set ps. status (bricks (gs sc) p) \<noteq> 0 \<Longrightarrow> scanBricks skill gr ps sc = Inr sc' \<Longrightarrow>
   int (totalLayoutBricks sc) - int (brokenBricks sc)
     < int (totalLayoutBricks sc') - int (brokenBricks sc')"
proof (induction ps arbitrary: sc)
  case Nil
  then show ?case by simp
next
  case (Cons p ps)
  from Cons.prems(2) obtain sc1 where st: "brickStep skill gr p sc = Inr sc1"
    and rest: "scanBricks skill gr ps sc1 = Inr sc'"
    by (auto split: sum.splits)
  show ?case
  proof (cases "status (bricks (gs sc) p) = 0")
    case False
    then show ?thesis using brickStep_alive[OF False st] scan_mono[OF rest] by linarith
  next
    case True
    then have g: "gs sc1 = gs sc" using st brickStep_broken[OF True, of skill gr]
      by (auto split: if_splits)
    have "\<exists>q\<in>set ps. status (bricks (gs sc1) q) \<noteq> 0" using Cons.prems(1) True g by auto
    from Cons.IH[OF this rest] brickStep_mono[OF st] show ?thesis by linarith
  qed
qed

lemma scan_all_broken:
  "\<forall>p\<in>set ps. status (bricks (gs sc) p) = 0 \<Longrightarrow>
   scanBricks skill gr ps sc =
     Inr (sc\<lparr>totalLayoutBricks := totalLayoutBricks sc + length (filter placed (map (bricks (gs sc)) ps)),
             brokenBricks := brokenBricks sc + length (filter placed (map (bricks (gs sc)) ps))\<rparr>)"
proof (induction ps arbitrary: sc)
  case Nil
  then show ?case by simp
next
  case (Cons p ps)
  have b: "status (bricks (gs sc) p) = 0" using Cons.prems by simp
  let ?sc1 = "if placed (bricks (gs sc) p)
          then sc\<lparr>totalLayoutBricks := totalLayoutBricks sc + 1, brokenBricks := brokenBricks sc + 1\<rparr>
          else sc"
  have g: "gs ?sc1 = gs sc" by simp
  have "\<forall>q\<in>set ps. status (bricks (gs ?sc1) q) = 0" using Cons.prems g by simp
  from Cons.IH[OF this] show ?case
    using brickStep_broken[OF b, of skill gr] by (simp split: if_splits)
qed

lemma length_filter_all: "(length (filter P xs) = length xs) = (\<forall>x\<in>set xs. P x)"
proof (induction xs)
  case Nil
  show ?case by simp
next
  case (Cons x xs)
  have "length (filter P xs) \<noteq> Suc (length xs)"
    using length_filter_le[of P xs] by linarith
  then show ?case using Cons by simp
qed

lemma counts_all_broken:
  "(brokenCount s = layoutCount s) = (\<forall>p\<in>set brickPositions. status (bricks s p) = 0)"
proof -
  let ?xs = "filter placed (map (bricks s) brickPositions)"
  have "(length (filter (\<lambda>b. status b = 0) ?xs) = length ?xs) = (\<forall>b\<in>set ?xs. status b = 0)"
    by (rule length_filter_all)
  also have "\<dots> = (\<forall>p\<in>set brickPositions. status (bricks s p) = 0)"
    by (auto simp: placed_def)
  finally show ?thesis by (simp add: brokenCount_def layoutCount_def)
qed

lemma win_test:
  assumes "scanBricks skill gr brickPositions (startScan s) = Inr sc"
  shows "winDetected sc \<longleftrightarrow> layoutCount s > 0 \<and> brokenCount s = layoutCount s \<and> \<not> isWinning s"
proof -
  have w: "isWinning (gs sc) = isWinning s"
    using scanFootprint_keeps(2)[OF scan_footprint[OF assms]] by (simp add: startScan_def)
  show ?thesis
  proof (cases "\<forall>p\<in>set brickPositions. status (bricks s p) = 0")
    case True
    then have "\<forall>p\<in>set brickPositions. status (bricks (gs (startScan s)) p) = 0"
      by (simp add: startScan_def)
    from scan_all_broken[OF this, of skill gr] assms
    have "totalLayoutBricks sc = layoutCount s" "brokenBricks sc = layoutCount s" "gs sc = s"
      by (auto simp: startScan_def layoutCount_def)
    then show ?thesis using True counts_all_broken[of s] by (simp add: winDetected_def)
  next
    case False
    then have "\<exists>p\<in>set brickPositions. status (bricks (gs (startScan s)) p) \<noteq> 0"
      by (simp add: startScan_def)
    from scan_some_alive[OF this assms] have "brokenBricks sc \<noteq> totalLayoutBricks sc"
      by (simp add: startScan_def)
    then show ?thesis using False counts_all_broken[of s] by (simp add: winDetected_def)
  qed
qed


lemma layoutCount_alt: "layoutCount s = length (filter (\<lambda>p. placed (bricks s p)) brickPositions)"
  by (simp add: layoutCount_def filter_map o_def)

lemma brokenCount_alt:
  "brokenCount s = length (filter (\<lambda>p. placed (bricks s p) \<and> status (bricks s p) = 0) brickPositions)"
  by (simp add: brokenCount_def filter_map o_def conj_commute)

lemma counts_cong:
  assumes "\<And>p. status (bricks s' p) = status (bricks s p)"
    and "\<And>p. placed (bricks s' p) = placed (bricks s p)"
  shows "layoutCount s' = layoutCount s" and "brokenCount s' = brokenCount s"
  using assms by (simp_all add: layoutCount_alt brokenCount_alt)

lemma drawBricks_status:
  "status (bricks (drawBricks s) p) = status (bricks s p)"
  "placed (bricks (drawBricks s) p) = placed (bricks s p)"
  by (cases p; simp add: drawBricks_def Let_def placed_def)+

lemma controller_bricks:
  assumes "controllerStage props rnd s = Inr s2"
  shows "bricks s2 = bricks (drawBricks s)" and "lives s2 = lives s"
proof -
  from controller_fields[OF assms] obtain x ps P where
    s2: "s2 = (drawBricks (frameStart s))
            \<lparr>strategicPlan := P,
             paddle := (paddle (drawBricks (frameStart s)))\<lparr>paddle_x := x\<rparr>,
             isPowerShotMode := ps\<rparr>" by blast
  show "bricks s2 = bricks (drawBricks s)" "lives s2 = lives s"
    unfolding s2 by (simp_all add: drawBricks_def frameStart_def)
qed

lemma loopDetection_keeps:
  "bricks (loopDetection s) = bricks s" "lives (loopDetection s) = lives s"
  "isWinning (loopDetection s) = isWinning s" "isLosing (loopDetection s) = isLosing s"
  "paddle (loopDetection s) = paddle s" "ball (loopDetection s) = ball s"
  by (simp_all add: loopDetection_def recordPosition_def Let_def)

lemma phases_flags:
  "isWinning (floorPhase rr (paddlePhase (wallsPhase skill s))) = isWinning s"
  "lives (paddlePhase (wallsPhase skill s)) = lives s"
  "isLosing (paddlePhase (wallsPhase skill s)) = isLosing s"
proof -
  obtain BL N D where w: "wallsPhase skill s = s\<lparr>ball := BL, nonProductiveHits := N, dynamicAggressionFactor := D\<rparr>"
    using walls_fields by blast
  show "isWinning (floorPhase rr (paddlePhase (wallsPhase skill s))) = isWinning s"
    "lives (paddlePhase (wallsPhase skill s)) = lives s"
    "isLosing (paddlePhase (wallsPhase skill s)) = isLosing s"
    unfolding w by (simp_all add: floorPhase_def paddlePhase_def resetBallAndPaddle_def Let_def)
qed

lemma floorPhase_losing:
  "isLosing (floorPhase rr s) =
     (isLosing s \<or> (ball_y (ball s) - ball_radius (ball s) > CANVAS_HEIGHT \<and> lives s = 1))"
  by (auto simp: floorPhase_def resetBallAndPaddle_def Let_def)

text \<open>
  C3, as the code has it.  A frame sets the win flag exactly when it starts with the
  match not over, at least one brick in the layout, and every brick of the layout already
  broken: the test counts a brick as broken only if it was broken when the loop reached
  it, so the frame that breaks the last brick does not set the flag and the next frame
  does.  A frame sets the loss flag exactly when its floor test finds the ball fully below
  the bottom edge while one life is left.  Neither flag is ever cleared by a frame.
\<close>

theorem terminal_states:
  assumes "draw props rnd s = Inr s'"
  shows "(isWinning s' \<longleftrightarrow>
            isWinning s \<or> (\<not> isLosing s \<and> layoutCount s > 0 \<and> brokenCount s = layoutCount s))
       \<and> (isLosing s' \<longleftrightarrow> isLosing s \<or> (ballExitInFrame props rnd s \<and> lives s = 1))"
proof -
  from draw_stages[OF assms] obtain s2 where
    s2: "controllerStage props rnd s = Inr s2"
    and rest: "if \<not> isWinning (loopDetection s2) \<and> \<not> isLosing (loopDetection s2)
         then collisionDetection (initialSkillLevel props) (goldenDraw rnd) (resetDraw rnd)
                (updateBall (loopDetection s2)) = Inr s'
         else s' = loopDetection s2" by blast
  let ?t = "updateBall (loopDetection s2)"
  have fl: "isWinning (loopDetection s2) = isWinning s" "isLosing (loopDetection s2) = isLosing s"
    using controller_flags(3,4)[OF s2] by (simp_all add: loopDetection_keeps)
  show ?thesis
  proof (cases "\<not> isWinning s \<and> \<not> isLosing s")
    case False
    then have "s' = loopDetection s2" using rest fl by auto
    moreover have "\<not> ballExitInFrame props rnd s"
      using False s2 fl by (auto simp: ballExitInFrame_def Let_def)
    ultimately show ?thesis using False fl by auto
  next
    case True
    then have cd: "collisionDetection (initialSkillLevel props) (goldenDraw rnd) (resetDraw rnd) ?t = Inr s'"
      using rest fl by simp
    then obtain sc where sc: "scanBricks (initialSkillLevel props) (goldenDraw rnd) brickPositions (startScan ?t) = Inr sc"
      and s': "s' = (if winDetected sc then (gs sc)\<lparr>isWinning := True\<rparr>
                   else floorPhase (resetDraw rnd) (paddlePhase (wallsPhase (initialSkillLevel props) (gs sc))))"
      by (auto simp: collisionDetection_def split: sum.splits if_splits)
    have bt: "bricks ?t = bricks (drawBricks s)"
      using controller_bricks(1)[OF s2] by (simp add: updateBall_def loopDetection_keeps)
    have cnt: "layoutCount ?t = layoutCount s" "brokenCount ?t = brokenCount s"
      by (rule counts_cong; simp add: bt drawBricks_status)+
    have tw: "isWinning ?t = isWinning s" "isLosing ?t = isLosing s" "lives ?t = lives s"
      using fl controller_bricks(2)[OF s2] by (simp_all add: updateBall_def loopDetection_keeps)
    have wt: "winDetected sc \<longleftrightarrow> layoutCount s > 0 \<and> brokenCount s = layoutCount s"
      using win_test[OF sc] cnt tw True by simp
    have keep: "isWinning (gs sc) = isWinning s" "isLosing (gs sc) = isLosing s" "lives (gs sc) = lives s"
      using scanFootprint_keeps(2,3,4)[OF scan_footprint[OF sc]] tw by (simp_all add: startScan_def)
    have ex: "ballExitInFrame props rnd s =
        (\<not> winDetected sc \<and> (let s4 = paddlePhase (wallsPhase (initialSkillLevel props) (gs sc))
                        in ball_y (ball s4) - ball_radius (ball s4) > CANVAS_HEIGHT))"
      using s2 sc True fl by (simp add: ballExitInFrame_def Let_def)
    show ?thesis
    proof (cases "winDetected sc")
      case True
      then show ?thesis using s' wt keep ex \<open>\<not> isWinning s \<and> \<not> isLosing s\<close> by simp
    next
      case False
      let ?s4 = "paddlePhase (wallsPhase (initialSkillLevel props) (gs sc))"
      have e: "s' = floorPhase (resetDraw rnd) ?s4" using s' False by simp
      have w': "\<not> isWinning s'" unfolding e using keep True by (simp add: phases_flags)
      have l': "isLosing s' = (ball_y (ball ?s4) - ball_radius (ball ?s4) > CANVAS_HEIGHT \<and> lives s = 1)"
        unfolding e using keep True by (simp add: floorPhase_losing phases_flags)
      have ex': "ballExitInFrame props rnd s = (ball_y (ball ?s4) - ball_radius (ball ?s4) > CANVAS_HEIGHT)"
        using ex False by (simp add: Let_def)
      show ?thesis using w' l' ex' wt False True by auto
    qed
  qed
qed


lemmas eval_defs = draw_def demo_defs frame_defs collision_defs brickPositions_eq Let_def
  ballSpeed_less_iff ballSpeed_gt_iff power2_eq_square

text \<open>
  C3 as stated fails: in \<open>lastBrickDemo\<close> one brick of the layout is left; the frame
  breaks it, so that afterwards one brick of one is broken, and the win flag is still
  unset.
\<close>

theorem win_one_frame_late_counterexample:
  "winSummary lastBrickDemo = (0, 1, False)
   \<and> map_sum id winSummary (draw manualProps demoRandom lastBrickDemo) = Inr (1, 1, False)"
  by (simp add: winSummary_def layoutCount_def brokenCount_def placed_def lastBrickDemo_def eval_defs)

lemma allBroken_draw: "\<exists>s'. draw manualProps demoRandom allBrokenDemo = Inr s'"
  by (simp add: allBrokenDemo_def eval_defs)

lemma lastLife_draw: "\<exists>s'. draw manualProps demoRandom lastLifeDemo = Inr s'"
  by (simp add: lastLifeDemo_def eval_defs)

lemma lastLife_exit: "ballExitInFrame manualProps demoRandom lastLifeDemo"
  by (simp add: ballExitInFrame_def lastLifeDemo_def eval_defs)

theorem terminal_states_witness:
  "(\<exists>s'. draw manualProps demoRandom allBrokenDemo = Inr s' \<and> isWinning s' \<and> \<not> isLosing s')
   \<and> winSummary allBrokenDemo = (1, 1, False)
   \<and> (\<exists>s'. draw manualProps demoRandom lastLifeDemo = Inr s' \<and> isLosing s' \<and> \<not> isWinning s')
   \<and> lives lastLifeDemo = 1 \<and> ballExitInFrame manualProps demoRandom lastLifeDemo"
proof -
  obtain s1 where d1: "draw manualProps demoRandom allBrokenDemo = Inr s1"
    using allBroken_draw by blast
  obtain s2 where d2: "draw manualProps demoRandom lastLifeDemo = Inr s2"
    using lastLife_draw by blast
  have w: "winSummary allBrokenDemo = (1, 1, False)"
    by (simp add: winSummary_def layoutCount_def brokenCount_def placed_def allBrokenDemo_def eval_defs)
  have f1: "\<not> isLosing allBrokenDemo" "\<not> ballExitInFrame manualProps demoRandom allBrokenDemo"
    by (simp_all add: ballExitInFrame_def allBrokenDemo_def eval_defs)
  have f2: "\<not> isLosing lastLifeDemo" "\<not> isWinning lastLifeDemo" "lives lastLifeDemo = 1"
    "brokenCount lastLifeDemo \<noteq> layoutCount lastLifeDemo"
    by (simp_all add: layoutCount_def brokenCount_def placed_def lastLifeDemo_def eval_defs)
  have "isWinning s1 \<and> \<not> isLosing s1"
    using terminal_states [OF d1] w f1 by (simp add: winSummary_def)
  moreover have "isLosing s2 \<and> \<not> isWinning s2"
    using terminal_states [OF d2] f2 lastLife_exit by simp
  ultimately show ?thesis using d1 d2 w f2(3) lastLife_exit by blast
qed

text \<open>
  C1.  The friction-and-clamp step has no upper clamp.  In \<open>flickDemo\<close>, a match without
  any brick, the frame's paddle contact at 0.9 of the half width sends the ball off with
  a horizontal velocity of 9, and after the friction-and-clamp step of the next frame its
  speed is above MAX\_BALL\_SPEED.
\<close>

theorem speed_above_max_after_flick:
  "\<exists>s1. draw manualProps demoRandom flickDemo = Inr s1
       \<and> ball_dx (ball s1) = 9
       \<and> MAX_BALL_SPEED < ballSpeed (frictionClamp (moveBall (ball s1)))
       \<and> remainingBricks flickDemo = []"
  by (simp add: flickDemo_def remainingBricks_def eval_defs)

subsection \<open>Special values in the controller\<close>

lemmas js_defs = jsNeg_def jsAdd_def jsSub_def jsMul_def jsDiv_def jsAbs_def jsLess_def
  jsLessEq_def isInfJs_def isZeroJs_def signBit_def mkInf_def mkFin_def valJs_def
  isFiniteJs_def jsMax_def jsMin_def

lemma js_nan [simp]:
  "jsAdd NaN x = NaN" "jsAdd x NaN = NaN" "jsSub NaN x = NaN" "jsSub x NaN = NaN"
  "jsMul NaN x = NaN" "jsMul x NaN = NaN" "jsDiv NaN x = NaN" "jsDiv x NaN = NaN"
  "jsAbs NaN = NaN" "jsNeg NaN = NaN"
  "jsLess NaN x = False" "jsLess x NaN = False" "jsLessEq NaN x = False" "jsLessEq x NaN = False"
  "jsMax NaN x = NaN" "jsMax x NaN = NaN" "jsMin NaN x = NaN" "jsMin x NaN = NaN"
  "\<not> isFiniteJs NaN"
  by (cases x; simp add: js_defs)+

lemma js_fin [simp]:
  "jsMul (Fin a) (Fin b) = (if a * b = 0 \<and> (a < 0) \<noteq> (b < 0) then NegZero else Fin (a * b))"
  "jsDiv (Fin a) (Fin b) =
     (if b = 0 then (if a = 0 then NaN else if a < 0 then NegInf else PosInf)
      else if a = 0 \<and> b < 0 then NegZero else Fin (a / b))"
  "jsAbs (Fin a) = Fin \<bar>a\<bar>"
  "jsNeg (Fin a) = (if a = 0 then NegZero else Fin (- a))"
  "isFiniteJs (Fin a)" "isFiniteJs NegZero" "valJs (Fin a) = a" "valJs NegZero = 0"
  by (auto simp: js_defs)

lemma defensiveLoop_numeral:
  "defensiveLoop (numeral k) radius timeToImpact simX simDX =
     (if timeToImpact > Fin 0
      then let timeToWall =
                 (if simDX > Fin 0 then (Fin CANVAS_WIDTH - Fin radius - simX) / simDX
                  else (simX - Fin radius) / (- simDX))
           in if timeToWall \<ge> timeToImpact \<or> timeToWall \<le> Fin 0
              then defensiveLoop (pred_numeral k) radius (Fin 0) (simX + simDX * timeToImpact) simDX
              else defensiveLoop (pred_numeral k) radius (timeToImpact - timeToWall)
                     (simX + simDX * timeToWall) (simDX * Fin (- 1))
      else simX)"
  unfolding numeral_eq_Suc defensiveLoop.simps ..

lemma planShots_ball: "ball (planShots s) = ball s" "paddle (planShots s) = paddle s"
  "isStuck (planShots s) = isStuck s"
  "recoveringFromStuckCounter (planShots s) = recoveringFromStuckCounter s"
proof -
  obtain P where "planShots s = s\<lparr>strategicPlan := P\<rparr>" using planShots_fields by blast
  then show "ball (planShots s) = ball s" "paddle (planShots s) = paddle s"
    "isStuck (planShots s) = isStuck s"
    "recoveringFromStuckCounter (planShots s) = recoveringFromStuckCounter s" by simp_all
qed

lemma chooseTarget_nan: "fst (chooseTarget props mode s NaN off) = NaN"
  by (simp add: chooseTarget_def Let_def split: option.splits)

lemma movePaddle_nan: "movePaddle props jr mode s NaN flick = NaN"
  by (simp add: movePaddle_def Let_def)

lemma aiBlock_nan:
  assumes "getDefensiveTargetX (ball s) = NaN"
  shows "newPaddleX props jr mode s = NaN" and "aiBlock props jr mode s = Inl NonFinite"
proof -
  obtain t f p where c: "paddleTarget props mode (planShots s) = (t, f, p)"
    by (cases "paddleTarget props mode (planShots s)") auto
  have "fst (paddleTarget props mode (planShots s)) = NaN"
    using assms by (simp add: paddleTarget_def Let_def planShots_ball chooseTarget_nan)
  then have "t = NaN" using c by simp
  then show x: "newPaddleX props jr mode s = NaN"
    using c by (simp add: newPaddleX_def Let_def movePaddle_nan)
  show "aiBlock props jr mode s = Inl NonFinite"
    using c x by (simp add: aiBlock_def Let_def)
qed

lemma zeroDy_remaining:
  "remainingBricks zeroDyDemo = [\<lparr>brick_x = 182, brick_y = 50, status = 1, isGolden = False\<rparr>]"
  by (simp add: zeroDyDemo_def demo_defs remainingBricks_def brickPositions_eq)

lemma zeroDy_finisher: "finisherTarget zeroDyDemo = Some NaN"
  by (simp add: finisherTarget_def zeroDy_remaining Let_def paddleTopY_def)
     (simp add: zeroDyDemo_def demo_defs)

lemma zeroDy_offensive: "offensiveTarget demoProps zeroDyDemo d = Some NaN"
proof -
  have g: "gambleTarget demoProps zeroDyDemo = None"
    by (simp add: gambleTarget_def goldenBrickOf_def zeroDyDemo_def demo_defs brickPositions_eq)
  have p: "plannedTarget zeroDyDemo = None"
    by (simp add: plannedTarget_def bestPlanOf_def zeroDyDemo_def stateWith_def)
  have e: "isEndGame zeroDyDemo"
    by (simp add: isEndGame_def zeroDy_remaining game_consts)
  have r: "recoveringFromStuckCounter zeroDyDemo = 0" "strategicPlan zeroDyDemo = None"
    by (simp_all add: zeroDyDemo_def stateWith_def)
  show ?thesis by (simp add: offensiveTarget_def g p e r zeroDy_finisher Let_def)
qed

lemma zeroDx_defensive: "getDefensiveTargetX (ball zeroDxDemo) = NaN"
  by (simp add: getDefensiveTargetX_def zeroDxDemo_def demo_defs paddleTopY_def
       defensiveLoop_numeral Let_def js_defs)

text \<open>
  C4.  The finisher shot divides by the ball's vertical velocity without a guard.  In
  \<open>zeroDyDemo\<close>, with one brick left and a ball of vertical velocity 0 level with the
  top of the paddle, the defensive target is the ball's x (the guard of
  \<open>getDefensiveTargetX\<close>), but the finisher's time to impact is 0/0: its target is
  \<open>NaN\<close>, passes the range test and is the offensive target of the frame.  The
  projection of \<open>getDefensiveTargetX\<close> itself divides by the horizontal velocity: in
  \<open>zeroDxDemo\<close>, a ball at the left wall with horizontal velocity 0, the defensive target
  is \<open>NaN\<close> and so is the paddle position the controller computes.
\<close>

theorem unguarded_projection_gives_nan:
  "ball_dy (ball zeroDyDemo) = 0
   \<and> length (remainingBricks zeroDyDemo) = 1
   \<and> getDefensiveTargetX (ball zeroDyDemo) = Fin 200
   \<and> finisherTarget zeroDyDemo = Some NaN
   \<and> offensiveTarget demoProps zeroDyDemo (getDefensiveTargetX (ball zeroDyDemo)) = Some NaN
   \<and> ball_dx (ball zeroDxDemo) = 0
   \<and> getDefensiveTargetX (ball zeroDxDemo) = NaN
   \<and> newPaddleX demoProps 0.5 (agentModeOf zeroDxDemo) zeroDxDemo = NaN
   \<and> aiBlock demoProps 0.5 (agentModeOf zeroDxDemo) zeroDxDemo = Inl NonFinite"
proof -
  have "ball_dy (ball zeroDyDemo) = 0" "ball_dx (ball zeroDxDemo) = 0"
    by (simp_all add: zeroDyDemo_def zeroDxDemo_def stateWith_def ballAt_def)
  moreover have "getDefensiveTargetX (ball zeroDyDemo) = Fin 200"
    by (simp add: getDefensiveTargetX_def zeroDyDemo_def stateWith_def ballAt_def)
  ultimately show ?thesis
    using zeroDy_remaining zeroDy_finisher zeroDy_offensive zeroDx_defensive
      aiBlock_nan[OF zeroDx_defensive] by simp
qed

subsection \<open>Shot planning\<close>

lemma trajectoryLoop_numeral:
  "trajectoryLoop (numeral k) depth sb liveBricks hs bounces =
     (let sb1 = sb\<lparr>sim_x := sim_x sb + sim_dx sb, sim_y := sim_y sb + sim_dy sb\<rparr>;
          side = (sim_x sb1 > CANVAS_WIDTH \<or> sim_x sb1 < 0);
          sb2 = (if side then sb1\<lparr>sim_dx := sim_dx sb1 * (- 1)\<rparr> else sb1);
          bounces2 = (if side then bounces + 1 else bounces);
          top = (sim_y sb2 < 0);
          sb3 = (if top then sb2\<lparr>sim_dy := sim_dy sb2 * (- 1)\<rparr> else sb2);
          bounces3 = (if top then bounces2 + 1 else bounces2)
      in if sim_y sb3 > CANVAS_HEIGHT then hs
         else case findHit sb3 liveBricks of
                Some i \<Rightarrow>
                  if bounces3 + 1 \<ge> depth then hs @ [liveBricks ! i]
                  else trajectoryLoop (pred_numeral k) depth (sb3\<lparr>sim_dy := sim_dy sb3 * (- 1)\<rparr>)
                         (take i liveBricks @ drop (Suc i) liveBricks)
                         (hs @ [liveBricks ! i]) (bounces3 + 1)
              | None \<Rightarrow>
                  if bounces3 \<ge> depth then hs
                  else trajectoryLoop (pred_numeral k) depth sb3 liveBricks hs bounces3)"
  unfolding numeral_eq_Suc trajectoryLoop.simps ..

lemma single_remaining:
  "remainingBricks singleBrickDemo = [\<lparr>brick_x = 182, brick_y = 80, status = 1, isGolden = False\<rparr>]"
  by (simp add: singleBrickDemo_def demo_defs remainingBricks_def brickPositions_eq)

lemma single_ball: "ball_x (ball singleBrickDemo) = 200" "paddle_width (paddle singleBrickDemo) = 60"
  by (simp_all add: singleBrickDemo_def demo_defs)

lemmas traj_defs = simulatePath_def single_remaining single_ball projectTrajectory_def
  paddleTopY_def trajectoryLoop_numeral findHit_def insideBrick_def Let_def game_consts

lemma single_scores:
  "map path_score (map (simulatePath singleBrickDemo) AI_SIMULATION_ANGLES) = [0, 0, 0, 1, 0, 0, 0]"
  by (simp add: traj_defs)

lemma selectBest_fold:
  assumes "fold (\<lambda>(i, p) (maxScore, bestPathIndex).
             if path_score p > maxScore then (path_score p, int i) else (maxScore, bestPathIndex))
          (enumerate n paths) (m, b) = (m', b')"
  shows "m' = fold max (map path_score paths) m
       \<and> (if m' = m then b' = b
           else (\<exists>i<length paths. b' = int (n + i) \<and> path_score (paths ! i) = m'))"
  using assms
proof (induction paths arbitrary: n m b)
  case Nil
  then show ?case by simp
next
  case (Cons p ps)
  let ?m1 = "if path_score p > m then path_score p else m"
  let ?b1 = "if path_score p > m then int n else b"
  have step: "fold (\<lambda>(i, p) (maxScore, bestPathIndex).
             if path_score p > maxScore then (path_score p, int i) else (maxScore, bestPathIndex))
          (enumerate (Suc n) ps) (?m1, ?b1) = (m', b')"
    using Cons.prems by (simp split: if_splits)
  from Cons.IH[OF step] have
    m': "m' = fold max (map path_score ps) ?m1"
    and idx: "if m' = ?m1 then b' = ?b1
           else (\<exists>i<length ps. b' = int (Suc n + i) \<and> path_score (ps ! i) = m')"
    by blast+
  have ge: "?m1 \<le> m'" unfolding m'
  proof -
    have "a \<le> fold max xs a" for a :: nat and xs
      by (induction xs arbitrary: a) (auto intro: order_trans[OF max.cobounded2])
    then show "?m1 \<le> fold max (map path_score ps) ?m1" .
  qed
  have m1: "?m1 = max (path_score p) m" by (simp add: max_def)
  have first: "m' = fold max (map path_score (p # ps)) m"
    using m' m1 by simp
  have second: "if m' = m then b' = b
           else (\<exists>i<length (p # ps). b' = int (n + i) \<and> path_score ((p # ps) ! i) = m')"
  proof (cases "m' = ?m1")
    case True
    show ?thesis
    proof (cases "path_score p > m")
      case False
      then show ?thesis using True idx by simp
    next
      case gt: True
      then have "m' \<noteq> m" "b' = int n" "path_score p = m'" using True idx by auto
      then show ?thesis by (auto intro: exI[of _ 0])
    qed
  next
    case False
    then obtain i where i: "i < length ps" "b' = int (Suc n + i)" "path_score (ps ! i) = m'"
      using idx by auto
    have "m' \<noteq> m" using False ge by (auto split: if_splits)
    then show ?thesis using i by (auto intro: exI[of _ "Suc i"])
  qed
  show ?case using first second by blast
qed

lemma fold_max_Max: "fold max xs (m::nat) = Max (insert m (set xs))"
  using Max.set_eq_fold[of m xs] by simp

lemma plan_cases:
  fixes s :: GameState
  defines "paths \<equiv> map (simulatePath s) AI_SIMULATION_ANGLES"
  defines "best \<equiv> Max (set (map path_score paths))"
  shows "(best \<le> 1 \<and> strategicPlan (runShotSimulations s) = None)
       \<or> (1 < best \<and> (\<exists>i<length paths. strategicPlan (runShotSimulations s) = Some (paths, int i)
                          \<and> path_score (paths ! i) = best))"
proof -
  obtain m' b' where sb: "selectBest paths = (m', b')" by (cases "selectBest paths") auto
  have sf: "fold (\<lambda>(i, p) (maxScore, bestPathIndex).
             if path_score p > maxScore then (path_score p, int i) else (maxScore, bestPathIndex))
          (enumerate 0 paths) (0, - 1) = (m', b')"
    using sb by (simp add: selectBest_def)
  have m': "m' = fold max (map path_score paths) 0"
    using selectBest_fold[OF sf] by blast
  have idx: "m' \<noteq> 0 \<Longrightarrow> \<exists>i<length paths. b' = int i \<and> path_score (paths ! i) = m'"
    using selectBest_fold[OF sf] by auto
  have ne: "set (map path_score paths) \<noteq> {}"
    by (simp add: paths_def game_consts)
  have "m' = Max (insert 0 (set (map path_score paths)))" using m' fold_max_Max by simp
  also have "\<dots> = best" unfolding best_def using ne by (subst Max_insert) auto
  finally have mb: "m' = best" .
  have r: "runShotSimulations s =
      (if m' > 1 then s\<lparr>strategicPlan := Some (paths, b')\<rparr> else s\<lparr>strategicPlan := None\<rparr>)"
    using sb by (simp add: runShotSimulations_def paths_def Let_def)
  show ?thesis
  proof (cases "1 < best")
    case True
    then have "m' \<noteq> 0" using mb by simp
    then obtain i where "i < length paths" "b' = int i" "path_score (paths ! i) = m'"
      using idx by blast
    then show ?thesis using True r mb by auto
  next
    case False
    then show ?thesis using r mb by simp
  qed
qed

text \<open>
  C8.  After \<open>runShotSimulations\<close> has simulated the seven candidate angles, a plan is
  kept exactly when the highest score among the paths is above 1, and exactly then the
  plan gives an offensive target; a field whose best candidate hits one brick leaves no
  plan and no target from this source.
\<close>

theorem plan_retained_iff_best_above_one:
  "(strategicPlan (runShotSimulations s) \<noteq> None
      \<longleftrightarrow> 1 < Max (set (map path_score (map (simulatePath s) AI_SIMULATION_ANGLES))))
   \<and> (plannedTarget (runShotSimulations s) \<noteq> None
      \<longleftrightarrow> 1 < Max (set (map path_score (map (simulatePath s) AI_SIMULATION_ANGLES))))
   \<and> (Max (set (map path_score (map (simulatePath s) AI_SIMULATION_ANGLES))) = 1
      \<longrightarrow> strategicPlan (runShotSimulations s) = None
          \<and> plannedTarget (runShotSimulations s) = None)"
proof -
  let ?paths = "map (simulatePath s) AI_SIMULATION_ANGLES"
  let ?best = "Max (set (map path_score ?paths))"
  show ?thesis
  proof (cases "1 < ?best")
    case False
    then have "strategicPlan (runShotSimulations s) = None" using plan_cases[of s] by auto
    then show ?thesis using False by (simp add: plannedTarget_def bestPlanOf_def)
  next
    case True
    then obtain i where i: "i < length ?paths"
        "strategicPlan (runShotSimulations s) = Some (?paths, int i)"
        "path_score (?paths ! i) = ?best"
      using plan_cases[of s] by auto
    have "bestPlanOf (runShotSimulations s) = Some (?paths ! i)"
      using i(1,2) by (simp add: bestPlanOf_def)
    then have "plannedTarget (runShotSimulations s) \<noteq> None"
      using i(3) True by (simp add: plannedTarget_def)
    then show ?thesis using True i(2) by simp
  qed
qed


lemma two_remaining:
  "remainingBricks twoBrickDemo =
     [\<lparr>brick_x = 264, brick_y = 20, status = 1, isGolden = False\<rparr>,
      \<lparr>brick_x = 264, brick_y = 35, status = 1, isGolden = False\<rparr>]"
  by (simp add: twoBrickDemo_def demo_defs remainingBricks_def brickPositions_eq)

lemma two_ball: "ball_x (ball twoBrickDemo) = 200" "paddle_width (paddle twoBrickDemo) = 60"
  by (simp_all add: twoBrickDemo_def demo_defs)

lemma two_score: "path_score (simulatePath twoBrickDemo 0.3) = 2"
  by (simp add: simulatePath_def two_remaining two_ball projectTrajectory_def
      paddleTopY_def trajectoryLoop_numeral findHit_def insideBrick_def Let_def game_consts
      upt_rec)

theorem plan_retained_iff_best_above_one_witness:
  "map path_score (map (simulatePath singleBrickDemo) AI_SIMULATION_ANGLES) = [0, 0, 0, 1, 0, 0, 0]
   \<and> strategicPlan (runShotSimulations singleBrickDemo) = None
   \<and> plannedTarget (runShotSimulations singleBrickDemo) = None
   \<and> path_score (simulatePath twoBrickDemo 0.3) = 2
   \<and> strategicPlan (runShotSimulations twoBrickDemo) \<noteq> None
   \<and> plannedTarget (runShotSimulations twoBrickDemo) \<noteq> None"
proof -
  have one: "Max (set (map path_score (map (simulatePath singleBrickDemo) AI_SIMULATION_ANGLES))) = 1"
    unfolding single_scores by simp
  have "path_score (simulatePath twoBrickDemo 0.3)
          \<in> set (map path_score (map (simulatePath twoBrickDemo) AI_SIMULATION_ANGLES))"
    by (simp add: game_consts)
  then have "2 \<le> Max (set (map path_score (map (simulatePath twoBrickDemo) AI_SIMULATION_ANGLES)))"
    unfolding two_score by (intro Max_ge) simp_all
  then have two: "1 < Max (set (map path_score (map (simulatePath twoBrickDemo) AI_SIMULATION_ANGLES)))"
    by simp
  show ?thesis
    using plan_retained_iff_best_above_one [of singleBrickDemo]
      plan_retained_iff_best_above_one [of twoBrickDemo] one two single_scores two_score
    by simp
qed

subsection \<open>The confidence scalar over a match\<close>

lemma first_frame:
  "\<exists>s1. draw manualProps demoRandom (initialState manualProps 0 0 0) = Inr s1
     \<and> ball_y (ball s1) = 266"
  by (simp add: initialState_def createBricks_def LEVEL_LAYOUTS_def hasBrick_def eval_defs)

lemma cap_frame:
  "\<exists>s1. draw manualProps demoRandom capDemo = Inr s1 \<and> dynamicAggressionFactor s1 = 1.5
      \<and> productiveHits s1 = 1"
  by (simp add: capDemo_def plainDemo_def eval_defs)

lemma floor_frame:
  "\<exists>s1. draw manualProps demoRandom floorDemo = Inr s1 \<and> dynamicAggressionFactor s1 = 0.5
      \<and> nonProductiveHits s1 = 1"
  by (simp add: floorDemo_def eval_defs)


text \<open>
  C10.  With a skill level that is not negative, the confidence scalar
  \<open>dynamicAggressionFactor\<close> lies in \<open>[0.5, 1.5]\<close> in every state of a match: it starts
  at 1, the increase on a brick hit is capped at 1.5, the decrease on a wall hit is floored
  at 0.5, and nothing else writes it.  The bounds are kept by a frame from every state
  that has them, of a match or not; and by \<open>collisionDetection\<close>, the only code that
  writes the scalar, whatever the paddle position the controller has left.
\<close>

theorem confidence_within_bounds:
  assumes "0 \<le> initialSkillLevel props"
  shows "(reachable props s \<longrightarrow>
            0.5 \<le> dynamicAggressionFactor s \<and> dynamicAggressionFactor s \<le> 1.5)
       \<and> (confident t \<longrightarrow> draw props rnd t = Inr t' \<longrightarrow> confident t')
       \<and> (confident u \<longrightarrow>
            collisionDetection (initialSkillLevel props) gr rr u = Inr u' \<longrightarrow> confident u')"
proof -
  have a: "0.5 \<le> dynamicAggressionFactor s \<and> dynamicAggressionFactor s \<le> 1.5"
    if "reachable props s"
    using that
  proof (induction rule: reachable.induct)
    case (start layoutRand goldenPick rand)
    show ?case by (simp add: initialState_def resetBallAndPaddle_def)
  next
    case (frame s rnd s')
    then show ?case using draw_daf[OF assms, of s rnd s'] by (simp add: confident_def)
  qed
  have b: "confident t'" if "confident t" "draw props rnd t = Inr t'"
    using draw_daf[OF assms that] .
  have c: "confident u'"
    if "confident u" "collisionDetection (initialSkillLevel props) gr rr u = Inr u'"
    using collision_daf[OF assms that] .
  show ?thesis using a b c by blast
qed

theorem confidence_within_bounds_witness:
  "0 \<le> initialSkillLevel manualProps
   \<and> (\<exists>s1. draw manualProps demoRandom (initialState manualProps 0 0 0) = Inr s1
         \<and> reachable manualProps s1
         \<and> 0.5 \<le> dynamicAggressionFactor s1 \<and> dynamicAggressionFactor s1 \<le> 1.5)
   \<and> dynamicAggressionFactor capDemo = 1.48
   \<and> (\<exists>s1. draw manualProps demoRandom capDemo = Inr s1 \<and> productiveHits s1 = 1
         \<and> dynamicAggressionFactor s1 = 1.5 \<and> confident s1)
   \<and> dynamicAggressionFactor floorDemo = 0.51
   \<and> (\<exists>s1. draw manualProps demoRandom floorDemo = Inr s1 \<and> nonProductiveHits s1 = 1
         \<and> dynamicAggressionFactor s1 = 0.5 \<and> confident s1)"
proof -
  have h: "0 \<le> initialSkillLevel manualProps" by (simp add: manualProps_def)
  have r0: "reachable manualProps (initialState manualProps 0 0 0)"
    by (rule reachable.start) simp_all
  obtain s1 where s1: "draw manualProps demoRandom (initialState manualProps 0 0 0) = Inr s1"
    using first_frame by blast
  have r1: "reachable manualProps s1" using reachable.frame[OF r0 s1] .
  have p1: "0.5 \<le> dynamicAggressionFactor s1 \<and> dynamicAggressionFactor s1 \<le> 1.5"
    using confidence_within_bounds[OF h, of s1] r1 by blast
  have c0: "dynamicAggressionFactor capDemo = 1.48" "confident capDemo"
    by (simp_all add: capDemo_def confident_def)
  obtain s2 where s2: "draw manualProps demoRandom capDemo = Inr s2" "productiveHits s2 = 1"
    "dynamicAggressionFactor s2 = 1.5"
    using cap_frame by blast
  have p2: "confident s2"
    using confidence_within_bounds[OF h, of _ capDemo demoRandom s2] c0(2) s2(1) by blast
  have f0: "dynamicAggressionFactor floorDemo = 0.51" "confident floorDemo"
    by (simp_all add: floorDemo_def confident_def)
  obtain s3 where s3: "draw manualProps demoRandom floorDemo = Inr s3" "nonProductiveHits s3 = 1"
    "dynamicAggressionFactor s3 = 0.5"
    using floor_frame by blast
  have p3: "confident s3"
    using confidence_within_bounds[OF h, of _ floorDemo demoRandom s3] f0(2) s3(1) by blast
  show ?thesis using h s1 r1 p1 c0(1) s2 p2 f0(1) s3 p3 by blast
qed

end
